theory Spec2Isabelle
  imports Complex_Main
begin

section \<open>Python values shared by the agent and the critic updaters\<close>

text \<open>
  Exceptions the modelled code can meet. \<open>ZeroDivisionError\<close> is raised by \<open>//\<close> in
  \<open>BaseAgent.fit\<close>, \<open>FileNotFoundError\<close> by \<open>T.load\<close> in \<open>BaseAgent.load\<close>,
  \<open>RuntimeError\<close> by \<open>T.gather\<close>; \<open>OtherError\<close> stands for whatever else a
  collaborator raises while a checkpoint is read.
\<close>

datatype error = FileNotFoundError | ZeroDivisionError | RuntimeError | OtherError string

text \<open>
  Floats are idealised as reals. \<open>NaN\<close> is kept apart because \<open>np.mean\<close> of an empty
  array is \<open>nan\<close>, not an exception and not \<open>0\<close>.
\<close>

datatype pyfloat = Num real | NaN

type_synonym ndarray = "real list"
type_synonym tensor = "real list"

fun np_mean :: "real list \<Rightarrow> pyfloat" where
  "np_mean [] = NaN"
| "np_mean (x # xs) = Num (sum_list (x # xs) / real (length (x # xs)))"

definition py_floordiv :: "int \<Rightarrow> int \<Rightarrow> error + int" where
  "py_floordiv a b = (if b = 0 then Inl ZeroDivisionError else Inr (a div b))"

section \<open>anvil/agents/base\_agent.py\<close>

text \<open>
  Modelled from the spec: \<open>Log\<close> (anvil.common.type\_aliases is not among the sources):
  a record with a reward and the optional scalars the updaters fill in.
\<close>

record Log =
  reward :: pyfloat
  actor_loss :: "pyfloat option"
  critic_loss :: "pyfloat option"
  kl_divergence :: "pyfloat option"
  entropy :: "pyfloat option"

text \<open>What \<open>buffer.last(batch_size)\<close> returns; only its \<open>rewards\<close> are read here.\<close>

record Batch =
  rewards :: "real list"

text \<open>
  The calls the agent makes on its collaborators, in the order it makes them. An
  environment step records the action argument it was given (\<open>None\<close>: called without
  one); a \<open>_fit\<close> call and a \<open>buffer.last\<close> call record what they returned.
\<close>

datatype event =
    EnvReset
  | EnvStep "tensor option"
  | ExplorerCall ndarray
  | ModelCall ndarray
  | AddTrajectory ndarray ndarray real ndarray bool
  | FitCall int int int Log
  | BufferLast int Batch
  | AddScalar string "pyfloat option" int
  | LoggerInfo string
  | LoggerInfoLog int Log

text \<open>
  The objects the agent holds (\<open>self.env\<close>, \<open>self.model\<close>, \<open>self.buffer\<close>, the
  explorer, the checkpoint files) live in one store \<open>'h\<close>; their classes are not among
  the sources, so their methods are parameters, each a transformer of that store.
  \<open>fit_impl\<close> is the abstract method \<open>_fit\<close>.
\<close>

record 'h deps =
  env_reset :: "'h \<Rightarrow> ndarray \<times> 'h"
  env_step :: "tensor option \<Rightarrow> 'h \<Rightarrow> (real \<times> ndarray \<times> bool) \<times> 'h"
  action_explorer :: "(ndarray \<Rightarrow> 'h \<Rightarrow> tensor \<times> 'h) option"
  model_call :: "ndarray \<Rightarrow> 'h \<Rightarrow> tensor \<times> 'h"
  torch_to_numpy :: "tensor \<Rightarrow> ndarray"
  add_trajectory :: "ndarray \<Rightarrow> ndarray \<Rightarrow> real \<Rightarrow> ndarray \<Rightarrow> bool \<Rightarrow> 'h \<Rightarrow> 'h"
  buffer_last :: "int \<Rightarrow> 'h \<Rightarrow> Batch"
  is_RolloutBuffer :: bool
  fit_impl :: "int \<Rightarrow> int \<Rightarrow> int \<Rightarrow> 'h \<Rightarrow> Log \<times> 'h"
  file_exists :: "string \<Rightarrow> 'h \<Rightarrow> bool"
  load_checkpoint :: "string \<Rightarrow> 'h \<Rightarrow> error + 'h"

record 'h BaseAgent =
  heap :: 'h
  verbose :: bool
  buffer_size :: int
  trace :: "event list"

definition emit :: "event \<Rightarrow> 'h BaseAgent \<Rightarrow> 'h BaseAgent" where
  "emit e s = s\<lparr>trace := trace s @ [e]\<rparr>"

subsection \<open>load\<close>

text \<open>
  \<open>T.load(path)\<close> raises \<open>FileNotFoundError\<close> when the file is missing; otherwise
  reading it and \<open>load_state_dict\<close> either replace the model's weights or raise.
\<close>

definition load_try_body :: "'h deps \<Rightarrow> string \<Rightarrow> 'h \<Rightarrow> error + 'h" where
  "load_try_body D path h =
     (if \<not> file_exists D path h then Inl FileNotFoundError else load_checkpoint D path h)"

definition load :: "'h deps \<Rightarrow> string \<Rightarrow> 'h BaseAgent \<Rightarrow> error + 'h BaseAgent" where
  "load D path0 s =
     (let path = path0 @ ''.pt'';
          s1 = (if verbose s then emit (LoggerInfo (''Loading weights from '' @ path)) s else s)
      in case load_try_body D path (heap s1) of
           Inr h \<Rightarrow> Inr (s1\<lparr>heap := h\<rparr>)
         | Inl FileNotFoundError \<Rightarrow>
             Inr (if verbose s1
                  then emit (LoggerInfo ''File not found, assuming no model dict was to be loaded'') s1
                  else s1)
         | Inl e \<Rightarrow> Inl e)"

subsection \<open>\_write\_log\<close>

definition write_log :: "Log \<Rightarrow> int \<Rightarrow> 'h BaseAgent \<Rightarrow> 'h BaseAgent" where
  "write_log lg step s =
     (let s1 = emit (AddScalar ''reward'' (Some (reward lg)) step) s;
          s2 = emit (AddScalar ''actor_loss'' (actor_loss lg) step) s1;
          s3 = emit (AddScalar ''critic_loss'' (critic_loss lg) step) s2;
          s4 = (if kl_divergence lg \<noteq> None
                then emit (AddScalar ''kl_divergence'' (kl_divergence lg) step) s3 else s3);
          s5 = (if entropy lg \<noteq> None
                then emit (AddScalar ''entropy'' (entropy lg) step) s4 else s4)
      in emit (LoggerInfoLog step lg) s5)"

subsection \<open>step\_env\<close>

text \<open>
  Choosing the action: the explorer when there is one, else the model's forward pass.
\<close>

definition choose_action :: "'h deps \<Rightarrow> ndarray \<Rightarrow> 'h BaseAgent \<Rightarrow> tensor \<times> 'h BaseAgent" where
  "choose_action D observation s =
     (case action_explorer D of
        Some explorer \<Rightarrow>
          (let (action, h) = explorer observation (heap s)
           in (action, emit (ExplorerCall observation) (s\<lparr>heap := h\<rparr>)))
      | None \<Rightarrow>
          (let (action, h) = model_call D observation (heap s)
           in (action, emit (ModelCall observation) (s\<lparr>heap := h\<rparr>))))"

text \<open>
  One pass through the body of the \<open>for\<close> loop. The source calls \<open>self.env.step()\<close>
  with no argument, so the environment receives \<open>None\<close> as its action; the fourth
  component of what \<open>step\<close> returns is dropped by the source and left out here.
\<close>

definition step_env_body :: "'h deps \<Rightarrow> ndarray \<Rightarrow> 'h BaseAgent \<Rightarrow> ndarray \<times> 'h BaseAgent" where
  "step_env_body D observation s =
     (let (action, s1) = choose_action D observation s;
          ((rew, next_observation, done), h2) = env_step D None (heap s1);
          s2 = emit (EnvStep None) (s1\<lparr>heap := h2\<rparr>);
          a = torch_to_numpy D action;
          s3 = emit (AddTrajectory observation a rew next_observation done)
                 (s2\<lparr>heap := add_trajectory D observation a rew next_observation done (heap s2)\<rparr>)
      in if done
         then (let (ob, h4) = env_reset D (heap s3) in (ob, emit EnvReset (s3\<lparr>heap := h4\<rparr>)))
         else (next_observation, s3))"

fun step_env_loop :: "'h deps \<Rightarrow> nat \<Rightarrow> ndarray \<Rightarrow> 'h BaseAgent \<Rightarrow> ndarray \<times> 'h BaseAgent" where
  "step_env_loop D 0 observation s = (observation, s)"
| "step_env_loop D (Suc n) observation s =
     (let (observation', s') = step_env_body D observation s
      in step_env_loop D n observation' s')"

text \<open>\<open>range(num_steps)\<close> is empty for a \<open>num_steps\<close> that is not positive.\<close>

definition step_env :: "'h deps \<Rightarrow> ndarray \<Rightarrow> int \<Rightarrow> 'h BaseAgent \<Rightarrow> ndarray \<times> 'h BaseAgent" where
  "step_env D observation num_steps s = step_env_loop D (nat num_steps) observation s"

subsection \<open>fit\<close>

text \<open>The body of the loop of \<open>fit\<close> at iteration \<open>step\<close>.\<close>

definition fit_body ::
  "'h deps \<Rightarrow> int \<Rightarrow> int \<Rightarrow> int \<Rightarrow> int \<Rightarrow> ndarray \<Rightarrow> 'h BaseAgent \<Rightarrow> ndarray \<times> 'h BaseAgent" where
  "fit_body D batch_size actor_epochs critic_epochs step observation s =
     (let (observation', s1) =
            (if step = 0 then step_env D observation batch_size s
             else if is_RolloutBuffer D then step_env D observation (buffer_size s) s
             else step_env D observation 1 s);
          (lg, h2) = fit_impl D batch_size actor_epochs critic_epochs (heap s1);
          s2 = emit (FitCall batch_size actor_epochs critic_epochs lg) (s1\<lparr>heap := h2\<rparr>);
          batch = buffer_last D batch_size (heap s2);
          s3 = emit (BufferLast batch_size batch) s2;
          lg' = lg\<lparr>reward := np_mean (rewards batch)\<rparr>
      in (observation', write_log lg' step s3))"

text \<open>\<open>for step in range(num_steps)\<close>: \<open>n\<close> iterations are left, the next one is \<open>step\<close>.\<close>

fun fit_loop ::
  "'h deps \<Rightarrow> int \<Rightarrow> int \<Rightarrow> int \<Rightarrow> nat \<Rightarrow> int \<Rightarrow> ndarray \<Rightarrow> 'h BaseAgent \<Rightarrow> 'h BaseAgent" where
  "fit_loop D batch_size actor_epochs critic_epochs 0 step observation s = s"
| "fit_loop D batch_size actor_epochs critic_epochs (Suc n) step observation s =
     (let (observation', s') = fit_body D batch_size actor_epochs critic_epochs step observation s
      in fit_loop D batch_size actor_epochs critic_epochs n (step + 1) observation' s')"

definition fit ::
  "'h deps \<Rightarrow> int \<Rightarrow> int \<Rightarrow> int \<Rightarrow> int \<Rightarrow> 'h BaseAgent \<Rightarrow> error + 'h BaseAgent" where
  "fit D num_steps batch_size actor_epochs critic_epochs s =
     (case (if is_RolloutBuffer D then py_floordiv num_steps (buffer_size s) else Inr num_steps) of
        Inl e \<Rightarrow> Inl e
      | Inr num_steps' \<Rightarrow>
          (let (observation, h) = env_reset D (heap s);
               s1 = emit EnvReset (s\<lparr>heap := h\<rparr>)
           in Inr (fit_loop D batch_size actor_epochs critic_epochs (nat num_steps') 0 observation s1)))"

section \<open>anvilrl/updaters/critics.py\<close>

subsection \<open>The tensor backend, as far as the updaters use it\<close>

text \<open>
  A trainable parameter is an index into the backend's store, which holds its value and
  its accumulated \<open>.grad\<close> (\<open>0\<close> when nothing was accumulated); an index outside the
  store names no parameter. A tensor entry that autograd tracks carries its value and
  its derivative with respect to every parameter.
\<close>

type_synonym param_id = nat
type_synonym tensor2 = "real list list"
type_synonym dual = "real \<times> real list"
type_synonym gtensor2 = "dual list list"

text \<open>A Python iterable: a generator yields its items once, a list every time.\<close>

datatype 'a iterable = Generator "'a list" | PyList "'a list"

fun iterate :: "'a iterable \<Rightarrow> 'a list \<times> 'a iterable" where
  "iterate (Generator xs) = (xs, Generator [])"
| "iterate (PyList xs) = (xs, PyList xs)"

text \<open>
  An optimizer class is its update rule: from the learning rate, the state kept for a
  parameter, the parameter's value and its gradient to the new value and state. A new
  optimizer keeps no state for any parameter.
\<close>

type_synonym optimizer_rule = "real \<Rightarrow> real list \<Rightarrow> real \<Rightarrow> real \<Rightarrow> real \<times> real list"

record optimizer =
  param_groups :: "param_id list"
  opt_lr :: real
  opt_rule :: optimizer_rule
  opt_state :: "real list list"

datatype tcall =
    NewOptimizer "param_id list" real
  | ZeroGrad
  | Backward
  | ClipGradNorm "param_id list" real
  | OptimizerStep "real list list"

record torch =
  pdata :: "real list"
  pgrad :: "real list"
  calls :: "tcall list"

record loss_tensor =
  item :: real
  dloss :: "real list"

definition new_optimizer :: "optimizer_rule \<Rightarrow> param_id list \<Rightarrow> real \<Rightarrow> torch \<Rightarrow> optimizer \<times> torch" where
  "new_optimizer rule ps l t =
     (\<lparr>param_groups = ps, opt_lr = l, opt_rule = rule, opt_state = replicate (length ps) []\<rparr>,
      t\<lparr>calls := calls t @ [NewOptimizer ps l]\<rparr>)"

definition zero_grad :: "optimizer \<Rightarrow> torch \<Rightarrow> torch" where
  "zero_grad opt t =
     t\<lparr>pgrad := map (\<lambda>i. if i \<in> set (param_groups opt) then 0 else pgrad t ! i) [0..<length (pgrad t)],
       calls := calls t @ [ZeroGrad]\<rparr>"

definition backward :: "loss_tensor \<Rightarrow> torch \<Rightarrow> torch" where
  "backward loss t =
     t\<lparr>pgrad := map (\<lambda>i. pgrad t ! i + (if i < length (dloss loss) then dloss loss ! i else 0))
                   [0..<length (pgrad t)],
       calls := calls t @ [Backward]\<rparr>"

text \<open>
  \<open>torch.nn.utils.clip_grad_norm_\<close>: the 2-norm over the gradients of the parameters
  given, the coefficient \<open>max_norm / (total_norm + 1e-6)\<close>, and every gradient
  multiplied by it when it is below 1.
\<close>

definition total_norm :: "param_id list \<Rightarrow> real list \<Rightarrow> real" where
  "total_norm ps g = sqrt (sum_list (map (\<lambda>p. (g ! p)\<^sup>2) (filter (\<lambda>p. p < length g) ps)))"

fun scale_grads :: "real \<Rightarrow> param_id list \<Rightarrow> real list \<Rightarrow> real list" where
  "scale_grads c [] g = g"
| "scale_grads c (p # ps) g =
     scale_grads c ps (if p < length g then g[p := g ! p * c] else g)"

definition clip_grad_norm :: "param_id list \<Rightarrow> real \<Rightarrow> torch \<Rightarrow> torch" where
  "clip_grad_norm ps max_norm t =
     (let clip_coef = max_norm / (total_norm ps (pgrad t) + 1 / 1000000)
      in t\<lparr>pgrad := (if clip_coef < 1 then scale_grads clip_coef ps (pgrad t) else pgrad t),
           calls := calls t @ [ClipGradNorm ps max_norm]\<rparr>)"

fun step_params ::
  "optimizer_rule \<Rightarrow> real \<Rightarrow> param_id list \<Rightarrow> real list list \<Rightarrow> real list \<Rightarrow> real list
     \<Rightarrow> real list \<times> real list list" where
  "step_params rule l [] sts d g = (d, [])"
| "step_params rule l (p # ps) sts d g =
     (let st = (case sts of [] \<Rightarrow> [] | x # _ \<Rightarrow> x);
          (v, st') = (if p < length d \<and> p < length g then rule l st (d ! p) (g ! p) else (0, st));
          (d', sts') = step_params rule l ps (tl sts) (if p < length d \<and> p < length g then d[p := v] else d) g
      in (d', st' # sts'))"

definition optimizer_step :: "optimizer \<Rightarrow> torch \<Rightarrow> optimizer \<times> torch" where
  "optimizer_step opt t =
     (let (d, sts) = step_params (opt_rule opt) (opt_lr opt) (param_groups opt) (opt_state opt)
                       (pdata t) (pgrad t)
      in (opt\<lparr>opt_state := sts\<rparr>,
          t\<lparr>pdata := d, calls := calls t @ [OptimizerStep (opt_state opt)]\<rparr>))"

text \<open>\<open>c * loss\<close> on a tracked scalar scales its value and its derivative.\<close>

definition scale_loss :: "real \<Rightarrow> loss_tensor \<Rightarrow> loss_tensor" where
  "scale_loss c l = \<lparr>item = c * item l, dloss = map (\<lambda>x. c * x) (dloss l)\<rparr>"

text \<open>\<open>.long()\<close> truncates toward zero.\<close>

definition long :: "real \<Rightarrow> int" where
  "long x = (if 0 \<le> x then \<lfloor>x\<rfloor> else \<lceil>x\<rceil>)"

text \<open>
  \<open>T.gather(input, dim=-1, index)\<close> on a matrix: \<open>out[i][j] = input[i][index[i][j]]\<close>,
  with the shape of \<open>index\<close>; the index may not have more rows than the input, and an
  entry outside the row is a \<open>RuntimeError\<close>.
\<close>

definition gather_last :: "'a list list \<Rightarrow> int list list \<Rightarrow> error + 'a list list" where
  "gather_last input index =
     (if length index \<le> length input \<and>
         list_all (\<lambda>(row, js). list_all (\<lambda>j. 0 \<le> j \<and> j < int (length row)) js) (zip input index)
      then Inr (map (\<lambda>(row, js). map (\<lambda>j. row ! nat j) js) (zip input index))
      else Inl RuntimeError)"

subsection \<open>Models\<close>

text \<open>
  Modelled from the spec: \<open>Critic\<close> and \<open>ActorCritic\<close> (anvilrl.models.actor\_critics is
  not among the sources): a critic enumerates its parameters and is callable; an
  actor-critic exposes its critics and \<open>forward_critics\<close>. A forward pass reads the
  parameter values and the positional arguments of the call.
\<close>

record Critic =
  parameters :: "param_id list"
  forward :: "real list \<Rightarrow> tensor2 list \<Rightarrow> gtensor2"

record ActorCritic =
  critics :: "Critic list"
  forward_critics :: "real list \<Rightarrow> tensor2 list \<Rightarrow> gtensor2"

datatype model = IsCritic Critic | IsActorCritic ActorCritic

subsection \<open>BaseCriticUpdater\<close>

record BaseCriticUpdater =
  optimizer_class :: optimizer_rule
  lr :: real
  max_grad :: real

definition BaseCriticUpdater_init :: "optimizer_rule \<Rightarrow> real \<Rightarrow> real \<Rightarrow> error + BaseCriticUpdater" where
  "BaseCriticUpdater_init optimizer_class0 lr0 max_grad0 =
     Inr \<lparr>optimizer_class = optimizer_class0, lr = lr0, max_grad = max_grad0\<rparr>"

definition get_model_parameters :: "model \<Rightarrow> param_id iterable" where
  "get_model_parameters m =
     (case m of
        IsCritic c \<Rightarrow> Generator (parameters c)
      | IsActorCritic ac \<Rightarrow>
          PyList (foldl (\<lambda>params critic. params @ parameters critic) [] (critics ac)))"

definition run_optimizer ::
  "'a BaseCriticUpdater_scheme \<Rightarrow> optimizer \<Rightarrow> loss_tensor \<Rightarrow> param_id iterable \<Rightarrow> torch
     \<Rightarrow> optimizer \<times> torch" where
  "run_optimizer self opt loss critic_parameters t =
     (let t1 = zero_grad opt t;
          t2 = backward loss t1;
          t3 = (if max_grad self > 0
                then clip_grad_norm (fst (iterate critic_parameters)) (max_grad self) t2
                else t2)
      in optimizer_step opt t3)"

subsection \<open>ValueRegression, ContinuousQRegression, DiscreteQRegression\<close>

text \<open>
  The three classes add the same two fields to the base class. \<open>loss_class\<close> takes the
  model's output and the target to a tracked scalar.
\<close>

record CriticUpdater = BaseCriticUpdater +
  loss_class :: "gtensor2 \<Rightarrow> tensor2 \<Rightarrow> loss_tensor"
  loss_coeff :: real

record UpdaterLog =
  loss :: real

definition ValueRegression_init ::
  "(gtensor2 \<Rightarrow> tensor2 \<Rightarrow> loss_tensor) \<Rightarrow> optimizer_rule \<Rightarrow> real \<Rightarrow> real \<Rightarrow> real
     \<Rightarrow> error + CriticUpdater" where
  "ValueRegression_init loss_class0 optimizer_class0 lr0 loss_coeff0 max_grad0 =
     (case BaseCriticUpdater_init optimizer_class0 lr0 max_grad0 of
        Inl e \<Rightarrow> Inl e
      | Inr b \<Rightarrow> Inr \<lparr>optimizer_class = optimizer_class b, lr = lr b, max_grad = max_grad b,
                      loss_class = loss_class0, loss_coeff = loss_coeff0\<rparr>)"

definition ContinuousQRegression_init ::
  "(gtensor2 \<Rightarrow> tensor2 \<Rightarrow> loss_tensor) \<Rightarrow> optimizer_rule \<Rightarrow> real \<Rightarrow> real \<Rightarrow> real
     \<Rightarrow> error + CriticUpdater" where
  "ContinuousQRegression_init loss_class0 optimizer_class0 lr0 loss_coeff0 max_grad0 =
     (case BaseCriticUpdater_init optimizer_class0 lr0 max_grad0 of
        Inl e \<Rightarrow> Inl e
      | Inr b \<Rightarrow> Inr \<lparr>optimizer_class = optimizer_class b, lr = lr b, max_grad = max_grad b,
                      loss_class = loss_class0, loss_coeff = loss_coeff0\<rparr>)"

definition DiscreteQRegression_init ::
  "(gtensor2 \<Rightarrow> tensor2 \<Rightarrow> loss_tensor) \<Rightarrow> optimizer_rule \<Rightarrow> real \<Rightarrow> real \<Rightarrow> real
     \<Rightarrow> error + CriticUpdater" where
  "DiscreteQRegression_init loss_class0 optimizer_class0 lr0 loss_coeff0 max_grad0 =
     (case BaseCriticUpdater_init optimizer_class0 lr0 max_grad0 of
        Inl e \<Rightarrow> Inl e
      | Inr b \<Rightarrow> Inr \<lparr>optimizer_class = optimizer_class b, lr = lr b, max_grad = max_grad b,
                      loss_class = loss_class0, loss_coeff = loss_coeff0\<rparr>)"

text \<open>
  Each \<open>__call__\<close> returns the log; the updater and the backend are returned beside it,
  as the call leaves them. The optimizer's constructor iterates over
  \<open>critic_parameters\<close>, so a generator reaches \<open>run_optimizer\<close> exhausted.
\<close>

definition ValueRegression_call ::
  "CriticUpdater \<Rightarrow> model \<Rightarrow> tensor2 \<Rightarrow> tensor2 \<Rightarrow> torch \<Rightarrow> UpdaterLog \<times> CriticUpdater \<times> torch" where
  "ValueRegression_call self m observations returns t =
     (let critic_parameters = get_model_parameters m;
          (ps, critic_parameters') = iterate critic_parameters;
          (opt, t1) = new_optimizer (optimizer_class self) ps (lr self) t;
          vals = (case m of
                    IsCritic c \<Rightarrow> forward c (pdata t1) [observations]
                  | IsActorCritic ac \<Rightarrow> forward_critics ac (pdata t1) [observations]);
          l = scale_loss (loss_coeff self) (loss_class self vals returns);
          (opt', t2) = run_optimizer self opt l critic_parameters' t1
      in (\<lparr>loss = item l\<rparr>, self, t2))"

definition ContinuousQRegression_call ::
  "CriticUpdater \<Rightarrow> model \<Rightarrow> tensor2 \<Rightarrow> tensor2 \<Rightarrow> tensor2 \<Rightarrow> torch
     \<Rightarrow> UpdaterLog \<times> CriticUpdater \<times> torch" where
  "ContinuousQRegression_call self m observations actions returns t =
     (let critic_parameters = get_model_parameters m;
          (ps, critic_parameters') = iterate critic_parameters;
          (opt, t1) = new_optimizer (optimizer_class self) ps (lr self) t;
          q_values = (case m of
                        IsCritic c \<Rightarrow> forward c (pdata t1) [observations, actions]
                      | IsActorCritic ac \<Rightarrow> forward_critics ac (pdata t1) [observations, actions]);
          l = scale_loss (loss_coeff self) (loss_class self q_values returns);
          (opt', t2) = run_optimizer self opt l critic_parameters' t1
      in (\<lparr>loss = item l\<rparr>, self, t2))"

text \<open>
  \<open>to_torch\<close> leaves the entries of \<open>actions_index\<close> as they are; \<open>.long()\<close> casts them;
  a \<open>RuntimeError\<close> of the gather ends the call before any backend state has changed
  but for the optimizer's construction.
\<close>

definition DiscreteQRegression_call ::
  "CriticUpdater \<Rightarrow> model \<Rightarrow> tensor2 \<Rightarrow> tensor2 \<Rightarrow> tensor2 \<Rightarrow> torch
     \<Rightarrow> error + UpdaterLog \<times> CriticUpdater \<times> torch" where
  "DiscreteQRegression_call self m observations returns actions_index t =
     (let critic_parameters = get_model_parameters m;
          (ps, critic_parameters') = iterate critic_parameters;
          (opt, t1) = new_optimizer (optimizer_class self) ps (lr self) t;
          q_values = (case m of
                        IsCritic c \<Rightarrow> forward c (pdata t1) [observations]
                      | IsActorCritic ac \<Rightarrow> forward_critics ac (pdata t1) [observations])
      in case gather_last q_values (map (map long) actions_index) of
           Inl e \<Rightarrow> Inl e
         | Inr q_values' \<Rightarrow>
             (let l = scale_loss (loss_coeff self) (loss_class self q_values' returns);
                  (opt', t2) = run_optimizer self opt l critic_parameters' t1
              in Inr (\<lparr>loss = item l\<rparr>, self, t2)))"

subsection \<open>Reading a trace\<close>

text \<open>
  The schedule of a run: one \<open>Stepped\<close> for every step of the environment, one
  \<open>Collected\<close> for every transition handed to the buffer, one \<open>Fitted\<close> for every
  call of \<open>_fit\<close>, in the order of the trace.
\<close>

datatype mark = Stepped | Collected | Fitted

fun mark_of :: "event \<Rightarrow> mark list" where
  "mark_of (EnvStep a) = [Stepped]"
| "mark_of (AddTrajectory ob a r ob' d) = [Collected]"
| "mark_of (FitCall b a c lg) = [Fitted]"
| "mark_of e = []"

definition marks :: "event list \<Rightarrow> mark list" where
  "marks tr = concat (map mark_of tr)"

definition environment_steps :: "event list \<Rightarrow> nat" where
  "environment_steps tr = length (filter (\<lambda>m. m = Stepped) (marks tr))"

definition transitions_appended :: "event list \<Rightarrow> nat" where
  "transitions_appended tr = length (filter (\<lambda>m. m = Collected) (marks tr))"

definition fit_iterations :: "event list \<Rightarrow> nat" where
  "fit_iterations tr = length (filter (\<lambda>m. m = Fitted) (marks tr))"

subsection \<open>A schedule, told on the store\<close>

text \<open>
  What the schedule claims say, written on the store of the collaborators alone, with
  no agent and no trace. One environment transition: an action is chosen (by the
  explorer if there is one, else by the model), the environment takes a step (without
  the action, as \<open>step_env\<close> steps it), the transition is handed to the buffer, and the
  environment is reset when the episode is done. \<open>collect k\<close> is \<open>k\<close> transitions in a
  row; \<open>scheduled_run\<close> takes a list of counts and, for each, collects that many
  transitions and then calls \<open>_fit\<close>.
\<close>

definition env_transition :: "'h deps \<Rightarrow> ndarray \<times> 'h \<Rightarrow> ndarray \<times> 'h" where
  "env_transition D x =
     (let (observation, h) = x;
          (action, h1) = (case action_explorer D of
                            Some explorer \<Rightarrow> explorer observation h
                          | None \<Rightarrow> model_call D observation h);
          ((rew, next_observation, done), h2) = env_step D None h1;
          h3 = add_trajectory D observation (torch_to_numpy D action) rew next_observation done h2
      in if done then env_reset D h3 else (next_observation, h3))"

fun collect :: "'h deps \<Rightarrow> nat \<Rightarrow> ndarray \<times> 'h \<Rightarrow> ndarray \<times> 'h" where
  "collect D 0 x = x"
| "collect D (Suc k) x = collect D k (env_transition D x)"

fun scheduled_run ::
  "'h deps \<Rightarrow> int \<Rightarrow> int \<Rightarrow> int \<Rightarrow> nat list \<Rightarrow> ndarray \<times> 'h \<Rightarrow> ndarray \<times> 'h" where
  "scheduled_run D batch_size actor_epochs critic_epochs [] x = x"
| "scheduled_run D batch_size actor_epochs critic_epochs (k # ks) x =
     (let (observation, h) = collect D k x
      in scheduled_run D batch_size actor_epochs critic_epochs ks
           (observation, snd (fit_impl D batch_size actor_epochs critic_epochs h)))"

section \<open>Example instances\<close>

text \<open>
  A small world to run the agent in: the environment counts its steps, pays the action
  it is given (and its step count when it is given none) and ends an episode every
  third step; the buffer keeps every reward it was handed; \<open>_fit\<close> reports a reward
  of 42 and changes nothing.
\<close>

record world =
  env_t :: nat
  stored :: "real list"
  files :: "string list"

definition toy_fit_log :: Log where
  "toy_fit_log = \<lparr>reward = Num 42, actor_loss = Some (Num 0), critic_loss = Some (Num 0),
                    kl_divergence = None, entropy = None\<rparr>"

definition toy_deps :: "bool \<Rightarrow> world deps" where
  "toy_deps rollout =
     \<lparr>env_reset = (\<lambda>h. ([0], h\<lparr>env_t := 0\<rparr>)),
      env_step = (\<lambda>a h. ((case a of Some [x] \<Rightarrow> x | _ \<Rightarrow> real (env_t h),
                            [real (env_t h + 1)], env_t h + 1 = 3),
                           h\<lparr>env_t := env_t h + 1\<rparr>)),
      action_explorer = None,
      model_call = (\<lambda>ob h. ([7], h)),
      torch_to_numpy = (\<lambda>a. a),
      add_trajectory = (\<lambda>ob a r ob' d h. h\<lparr>stored := stored h @ [r]\<rparr>),
      buffer_last = (\<lambda>n h. \<lparr>rewards = drop (length (stored h) - nat n) (stored h)\<rparr>),
      is_RolloutBuffer = rollout,
      fit_impl = (\<lambda>b a c h. (toy_fit_log, h)),
      file_exists = (\<lambda>p h. p \<in> set (files h)),
      load_checkpoint = (\<lambda>p h. Inr h)\<rparr>"

definition toy_agent :: "int \<Rightarrow> world BaseAgent" where
  "toy_agent capacity =
     \<lparr>heap = \<lparr>env_t = 0, stored = [], files = []\<rparr>, verbose = True,
      buffer_size = capacity, trace = []\<rparr>"

text \<open>
  For the updaters: SGD with momentum 0.9 as the optimizer class (its state for a
  parameter is the momentum buffer), the mean squared error as the loss class, a critic
  with two weights that scores two actions (\<open>q(x) = [w0 * x, w1 * x]\<close>), and an
  ensemble of two critics of one weight each. The loss is only used on tensors that
  are not empty (on empty ones \<open>torch.nn.MSELoss\<close> gives \<open>nan\<close>).
\<close>

definition sgd_momentum :: optimizer_rule where
  "sgd_momentum l st v g =
     (let b = (case st of [] \<Rightarrow> g | x # _ \<Rightarrow> (9 / 10) * x + g) in (v - l * b, [b]))"

definition mse_loss :: "gtensor2 \<Rightarrow> tensor2 \<Rightarrow> loss_tensor" where
  "mse_loss out target =
     (let ps = zip (concat out) (concat target);
          n = real (length ps);
          k = (case ps of [] \<Rightarrow> 0 | ((v, g), r) # _ \<Rightarrow> length g)
      in \<lparr>item = sum_list (map (\<lambda>((v, g), r). (v - r)\<^sup>2) ps) / n,
          dloss = map (\<lambda>j. sum_list (map (\<lambda>((v, g), r). 2 * (v - r) * (g ! j)) ps) / n) [0..<k]\<rparr>)"

definition toy_critic :: Critic where
  "toy_critic =
     \<lparr>parameters = [0, 1],
      forward = (\<lambda>d args. map (\<lambda>row. [(d ! 0 * hd row, [hd row, 0]), (d ! 1 * hd row, [0, hd row])])
                              (hd args))\<rparr>"

definition toy_ensemble :: ActorCritic where
  "toy_ensemble =
     \<lparr>critics = [\<lparr>parameters = [0], forward = (\<lambda>d args. map (\<lambda>row. [(d ! 0 * hd row, [hd row, 0])]) (hd args))\<rparr>,
                 \<lparr>parameters = [1], forward = (\<lambda>d args. map (\<lambda>row. [(d ! 1 * hd row, [0, hd row])]) (hd args))\<rparr>],
      forward_critics =
        (\<lambda>d args. map (\<lambda>row. [(d ! 0 * hd row, [hd row, 0]), (d ! 1 * hd row, [0, hd row])]) (hd args))\<rparr>"

definition toy_torch :: torch where
  "toy_torch = \<lparr>pdata = [1, 2], pgrad = [5, 5], calls = []\<rparr>"

definition toy_updater :: "real \<Rightarrow> CriticUpdater" where
  "toy_updater mg =
     \<lparr>optimizer_class = sgd_momentum, lr = 1 / 10, max_grad = mg,
      loss_class = mse_loss, loss_coeff = 1\<rparr>"

definition toy_optimizer :: optimizer where
  "toy_optimizer = \<lparr>param_groups = [0, 1], opt_lr = 1 / 10, opt_rule = sgd_momentum, opt_state = [[], []]\<rparr>"

definition toy_loss :: loss_tensor where
  "toy_loss = \<lparr>item = 1, dloss = [3, 4]\<rparr>"

section \<open>Properties of the agent\<close>

subsection \<open>Traces and stores of the loops\<close>

lemma marks_append: "marks (xs @ ys) = marks xs @ marks ys"
  by (simp add: marks_def)

lemma marks_Nil: "marks [] = []"
  by (simp add: marks_def)

lemma marks_Cons: "marks (e # tr) = mark_of e @ marks tr"
  by (simp add: marks_def)

lemma emit_simps:
  "trace (emit e s) = trace s @ [e]"
  "heap (emit e s) = heap s"
  "buffer_size (emit e s) = buffer_size s"
  "verbose (emit e s) = verbose s"
  by (simp_all add: emit_def)

lemma choose_action_marks:
  "marks (trace (snd (choose_action D ob s))) = marks (trace s)"
  by (simp add: choose_action_def emit_simps marks_append marks_Cons marks_Nil
      split: option.splits prod.splits)

lemma choose_action_buffer_size:
  "buffer_size (snd (choose_action D ob s)) = buffer_size s"
  by (simp add: choose_action_def emit_simps split: option.splits prod.splits)

lemma choose_action_store:
  "(fst (choose_action D ob s), heap (snd (choose_action D ob s))) =
     (case action_explorer D of
        Some explorer \<Rightarrow> explorer ob (heap s)
      | None \<Rightarrow> model_call D ob (heap s))"
  by (simp add: choose_action_def emit_simps split: option.splits prod.splits)

lemma step_env_body_marks:
  "marks (trace (snd (step_env_body D ob s))) = marks (trace s) @ [Stepped, Collected]"
proof -
  obtain a s1 where c: "choose_action D ob s = (a, s1)" by (cases "choose_action D ob s")
  have m: "marks (trace s1) = marks (trace s)" using choose_action_marks [of D ob s] c by simp
  show ?thesis
    by (simp add: step_env_body_def c Let_def emit_simps marks_append marks_Cons marks_Nil m
        split: prod.splits)
qed

lemma step_env_body_buffer_size:
  "buffer_size (snd (step_env_body D ob s)) = buffer_size s"
proof -
  obtain a s1 where c: "choose_action D ob s = (a, s1)" by (cases "choose_action D ob s")
  have m: "buffer_size s1 = buffer_size s" using choose_action_buffer_size [of D ob s] c by simp
  show ?thesis
    by (simp add: step_env_body_def c Let_def emit_simps m split: prod.splits)
qed

lemma step_env_body_store:
  "(fst (step_env_body D ob s), heap (snd (step_env_body D ob s))) = env_transition D (ob, heap s)"
proof -
  obtain a s1 where c: "choose_action D ob s = (a, s1)" by (cases "choose_action D ob s")
  have m: "(case action_explorer D of
              Some explorer \<Rightarrow> explorer ob (heap s)
            | None \<Rightarrow> model_call D ob (heap s)) = (a, heap s1)"
    using choose_action_store [of D ob s] c by simp
  show ?thesis
    by (simp add: step_env_body_def env_transition_def c m Let_def emit_simps split: prod.splits)
qed

lemma step_env_loop_marks:
  "marks (trace (snd (step_env_loop D n ob s))) =
     marks (trace s) @ concat (replicate n [Stepped, Collected])"
proof (induction n arbitrary: ob s)
  case 0
  show ?case by simp
next
  case (Suc n)
  obtain ob' s' where b: "step_env_body D ob s = (ob', s')" by (cases "step_env_body D ob s")
  have m: "marks (trace s') = marks (trace s) @ [Stepped, Collected]"
    using step_env_body_marks [of D ob s] b by simp
  show ?case by (simp add: b Suc.IH m)
qed

lemma step_env_loop_buffer_size:
  "buffer_size (snd (step_env_loop D n ob s)) = buffer_size s"
proof (induction n arbitrary: ob s)
  case 0
  show ?case by simp
next
  case (Suc n)
  obtain ob' s' where b: "step_env_body D ob s = (ob', s')" by (cases "step_env_body D ob s")
  have m: "buffer_size s' = buffer_size s"
    using step_env_body_buffer_size [of D ob s] b by simp
  show ?case by (simp add: b Suc.IH m)
qed

lemma step_env_loop_store:
  "(fst (step_env_loop D n ob s), heap (snd (step_env_loop D n ob s))) = collect D n (ob, heap s)"
proof (induction n arbitrary: ob s)
  case 0
  show ?case by simp
next
  case (Suc n)
  obtain ob' s' where b: "step_env_body D ob s = (ob', s')" by (cases "step_env_body D ob s")
  have m: "env_transition D (ob, heap s) = (ob', heap s')"
    using step_env_body_store [of D ob s] b by simp
  show ?case by (simp add: b Suc.IH m)
qed

lemma step_env_marks:
  "marks (trace (snd (step_env D ob k s))) =
     marks (trace s) @ concat (replicate (nat k) [Stepped, Collected])"
  by (simp add: step_env_def step_env_loop_marks)

lemma step_env_buffer_size:
  "buffer_size (snd (step_env D ob k s)) = buffer_size s"
  by (simp add: step_env_def step_env_loop_buffer_size)

lemma step_env_store:
  "(fst (step_env D ob k s), heap (snd (step_env D ob k s))) = collect D (nat k) (ob, heap s)"
  by (simp add: step_env_def step_env_loop_store)

lemma write_log_marks: "marks (trace (write_log lg step s)) = marks (trace s)"
  by (simp add: write_log_def Let_def emit_simps marks_append marks_Cons marks_Nil)

lemma write_log_buffer_size: "buffer_size (write_log lg step s) = buffer_size s"
  by (simp add: write_log_def Let_def emit_simps)

lemma write_log_trace:
  "trace (write_log lg step s) =
     trace s @ [AddScalar ''reward'' (Some (reward lg)) step,
                AddScalar ''actor_loss'' (actor_loss lg) step,
                AddScalar ''critic_loss'' (critic_loss lg) step]
       @ (if kl_divergence lg \<noteq> None then [AddScalar ''kl_divergence'' (kl_divergence lg) step] else [])
       @ (if entropy lg \<noteq> None then [AddScalar ''entropy'' (entropy lg) step] else [])
       @ [LoggerInfoLog step lg]"
  by (simp add: write_log_def Let_def emit_simps)

lemma write_log_heap: "heap (write_log lg step s) = heap s"
  by (simp add: write_log_def Let_def emit_simps)

text \<open>
  One iteration of \<open>fit\<close>: the marks it adds, and what it does to the observation and
  the store.
\<close>

lemma fit_body_run:
  "marks (trace (snd (fit_body D bs ae ce step ob s))) =
     marks (trace s) @
     concat (replicate (nat (if step = 0 then bs else if is_RolloutBuffer D then buffer_size s else 1))
               [Stepped, Collected]) @ [Fitted]"
  "buffer_size (snd (fit_body D bs ae ce step ob s)) = buffer_size s"
  "(fst (fit_body D bs ae ce step ob s), heap (snd (fit_body D bs ae ce step ob s))) =
     (let (ob', h) = collect D (nat (if step = 0 then bs else if is_RolloutBuffer D then buffer_size s else 1))
                       (ob, heap s)
      in (ob', snd (fit_impl D bs ae ce h)))"
proof -
  define j where "j = (if step = 0 then bs else if is_RolloutBuffer D then buffer_size s else 1)"
  obtain ob' s1 where c: "step_env D ob j s = (ob', s1)" by (cases "step_env D ob j s")
  have m: "marks (trace s1) = marks (trace s) @ concat (replicate (nat j) [Stepped, Collected])"
    using step_env_marks [of D ob j s] c by simp
  have z: "buffer_size s1 = buffer_size s"
    using step_env_buffer_size [of D ob j s] c by simp
  have h: "collect D (nat j) (ob, heap s) = (ob', heap s1)"
    using step_env_store [of D ob j s] c by simp
  have e: "(if step = 0 then step_env D ob bs s
            else if is_RolloutBuffer D then step_env D ob (buffer_size s) s
            else step_env D ob 1 s) = (ob', s1)"
    unfolding c [symmetric] by (simp add: j_def)
  show "marks (trace (snd (fit_body D bs ae ce step ob s))) =
     marks (trace s) @
     concat (replicate (nat (if step = 0 then bs else if is_RolloutBuffer D then buffer_size s else 1))
               [Stepped, Collected]) @ [Fitted]"
    unfolding fit_body_def e j_def [symmetric]
    by (simp add: Let_def emit_simps marks_append marks_Cons marks_Nil write_log_marks m
        split: prod.splits)
  show "buffer_size (snd (fit_body D bs ae ce step ob s)) = buffer_size s"
    unfolding fit_body_def e
    by (simp add: Let_def emit_simps write_log_buffer_size z split: prod.splits)
  show "(fst (fit_body D bs ae ce step ob s), heap (snd (fit_body D bs ae ce step ob s))) =
     (let (ob', h) = collect D (nat (if step = 0 then bs else if is_RolloutBuffer D then buffer_size s else 1))
                       (ob, heap s)
      in (ob', snd (fit_impl D bs ae ce h)))"
    unfolding fit_body_def e j_def [symmetric] h
    by (simp add: Let_def emit_simps write_log_heap split: prod.splits)
qed

lemma fit_loop_run:
  "buffer_size s = c \<Longrightarrow>
   marks (trace (fit_loop D bs ae ce n step ob s)) =
     marks (trace s) @
     concat (map (\<lambda>i. concat (replicate (nat (if step + int i = 0 then bs else if is_RolloutBuffer D then c else 1))
                                  [Stepped, Collected]) @ [Fitted])
               [0..<n]) \<and>
   heap (fit_loop D bs ae ce n step ob s) =
     snd (scheduled_run D bs ae ce
            (map (\<lambda>i. nat (if step + int i = 0 then bs else if is_RolloutBuffer D then c else 1)) [0..<n])
            (ob, heap s))"
proof (induction n arbitrary: step ob s)
  case 0
  show ?case by simp
next
  case (Suc n)
  obtain ob' s' where b: "fit_body D bs ae ce step ob s = (ob', s')"
    by (cases "fit_body D bs ae ce step ob s")
  have m: "marks (trace s') =
             marks (trace s) @
             concat (replicate (nat (if step = 0 then bs else if is_RolloutBuffer D then c else 1))
                       [Stepped, Collected]) @ [Fitted]"
    using fit_body_run(1) [of D bs ae ce step ob s] b Suc.prems by simp
  have z: "buffer_size s' = c"
    using fit_body_run(2) [of D bs ae ce step ob s] b Suc.prems by simp
  have h: "(let (ob1, h1) = collect D (nat (if step = 0 then bs else if is_RolloutBuffer D then c else 1)) (ob, heap s)
            in (ob1, snd (fit_impl D bs ae ce h1))) = (ob', heap s')"
    using fit_body_run(3) [of D bs ae ce step ob s] b Suc.prems by simp
  have sh: "\<And>f. map (\<lambda>i. f (step + int i)) [0..<Suc n] = f step # map (\<lambda>i. f (step + 1 + int i)) [0..<n]"
    by (simp add: upt_conv_Cons map_Suc_upt[symmetric] add.commute add.left_commute del: upt_Suc)
  note IH = Suc.IH [OF z, of "step + 1" ob']
  have A: "marks (trace (fit_loop D bs ae ce (Suc n) step ob s)) =
     marks (trace s) @
     concat (map (\<lambda>i. concat (replicate (nat (if step + int i = 0 then bs else if is_RolloutBuffer D then c else 1))
                                  [Stepped, Collected]) @ [Fitted])
               [0..<Suc n])"
    unfolding sh [of "\<lambda>j. concat (replicate (nat (if j = 0 then bs else if is_RolloutBuffer D then c else 1)) [Stepped, Collected]) @ [Fitted]"]
    by (simp add: b IH [THEN conjunct1] m)
  define j where "j = nat (if step = 0 then bs else if is_RolloutBuffer D then c else 1)"
  obtain ob1 h1 where cl: "collect D j (ob, heap s) = (ob1, h1)"
    by (cases "collect D j (ob, heap s)")
  have h': "ob1 = ob' \<and> snd (fit_impl D bs ae ce h1) = heap s'"
    using h unfolding j_def [symmetric] cl by simp
  have B: "heap (fit_loop D bs ae ce (Suc n) step ob s) =
     snd (scheduled_run D bs ae ce
            (map (\<lambda>i. nat (if step + int i = 0 then bs else if is_RolloutBuffer D then c else 1)) [0..<Suc n])
            (ob, heap s))"
    unfolding sh [of "\<lambda>j. nat (if j = 0 then bs else if is_RolloutBuffer D then c else 1)"]
      j_def [symmetric] scheduled_run.simps cl
    using h' by (simp add: b IH [THEN conjunct2])
  show ?case using A B by blast
qed

lemma count_schedule:
  "length (filter (\<lambda>m. m = Fitted)
     (concat (map (\<lambda>i. concat (replicate (f i) [Stepped, Collected]) @ [Fitted]) xs))) = length xs"
  "length (filter (\<lambda>m. m = Collected)
     (concat (map (\<lambda>i. concat (replicate (f i) [Stepped, Collected]) @ [Fitted]) xs))) = sum_list (map f xs)"
  "length (filter (\<lambda>m. m = Stepped)
     (concat (map (\<lambda>i. concat (replicate (f i) [Stepped, Collected]) @ [Fitted]) xs))) = sum_list (map f xs)"
proof -
  have r: "\<And>k. filter (\<lambda>m. m = Fitted) (concat (replicate k [Stepped, Collected])) = []
             \<and> length (filter (\<lambda>m. m = Collected) (concat (replicate k [Stepped, Collected]))) = k
             \<and> length (filter (\<lambda>m. m = Stepped) (concat (replicate k [Stepped, Collected]))) = k"
  proof -
    fix k show "filter (\<lambda>m. m = Fitted) (concat (replicate k [Stepped, Collected])) = []
             \<and> length (filter (\<lambda>m. m = Collected) (concat (replicate k [Stepped, Collected]))) = k
             \<and> length (filter (\<lambda>m. m = Stepped) (concat (replicate k [Stepped, Collected]))) = k"
      by (induction k) simp_all
  qed
  show "length (filter (\<lambda>m. m = Fitted)
     (concat (map (\<lambda>i. concat (replicate (f i) [Stepped, Collected]) @ [Fitted]) xs))) = length xs"
    by (induction xs) (simp_all add: r)
  show "length (filter (\<lambda>m. m = Collected)
     (concat (map (\<lambda>i. concat (replicate (f i) [Stepped, Collected]) @ [Fitted]) xs))) = sum_list (map f xs)"
    by (induction xs) (simp_all add: r)
  show "length (filter (\<lambda>m. m = Stepped)
     (concat (map (\<lambda>i. concat (replicate (f i) [Stepped, Collected]) @ [Fitted]) xs))) = sum_list (map f xs)"
    by (induction xs) (simp_all add: r)
qed

lemma fit_run:
  assumes "is_RolloutBuffer D \<longrightarrow> buffer_size s \<noteq> 0"
  shows "\<exists>s'. fit D num_steps bs ae ce s = Inr s' \<and>
     marks (trace s') = marks (trace s) @
       concat (map (\<lambda>i. concat (replicate (nat (if i = 0 then bs else if is_RolloutBuffer D then buffer_size s else 1))
                                    [Stepped, Collected]) @ [Fitted])
                [0..<nat (if is_RolloutBuffer D then num_steps div buffer_size s else num_steps)]) \<and>
     heap s' =
       snd (scheduled_run D bs ae ce
              (map (\<lambda>i. nat (if i = 0 then bs else if is_RolloutBuffer D then buffer_size s else 1))
                 [0..<nat (if is_RolloutBuffer D then num_steps div buffer_size s else num_steps)])
              (env_reset D (heap s)))"
proof -
  obtain ob h where r: "env_reset D (heap s) = (ob, h)" by (cases "env_reset D (heap s)")
  define s1 where "s1 = emit EnvReset (s\<lparr>heap := h\<rparr>)"
  have m1: "marks (trace s1) = marks (trace s)"
    by (simp add: s1_def emit_simps marks_append marks_Cons marks_Nil)
  have b1: "buffer_size s1 = buffer_size s" by (simp add: s1_def emit_simps)
  have h1: "heap s1 = h" by (simp add: s1_def emit_simps)
  define n where "n = nat (if is_RolloutBuffer D then num_steps div buffer_size s else num_steps)"
  have f: "fit D num_steps bs ae ce s = Inr (fit_loop D bs ae ce n 0 ob s1)"
    using assms by (simp add: fit_def py_floordiv_def r s1_def n_def)
  have z: "\<And>i::nat. (0 + int i = 0) = (i = 0)" by simp
  show ?thesis
    using fit_loop_run [OF b1, of D bs ae ce n 0 ob]
    unfolding f m1 h1 r n_def [symmetric] z by simp
qed

lemma sum_first_then_one:
  "sum_list (map (\<lambda>i. if i = 0 then b else (1::nat)) [0..<Suc n]) = b + n"
  by (induction n) simp_all

lemma toy_transition:
  "env_transition (toy_deps r) (ob, \<lparr>env_t = t, stored = xs, files = fs\<rparr>) =
     (if t + 1 = 3 then ([0], \<lparr>env_t = 0, stored = xs @ [real t], files = fs\<rparr>)
      else ([real (t + 1)], \<lparr>env_t = t + 1, stored = xs @ [real t], files = fs\<rparr>))"
  by (simp add: env_transition_def toy_deps_def Let_def)

lemma toy_collaborators:
  "env_reset (toy_deps r) \<lparr>env_t = t, stored = xs, files = fs\<rparr> = ([0], \<lparr>env_t = 0, stored = xs, files = fs\<rparr>)"
  "fit_impl (toy_deps r) b a c h = (toy_fit_log, h)"
  "is_RolloutBuffer (toy_deps r) = r"
  by (simp_all add: toy_deps_def)

lemma collect_numeral:
  "collect D 1 x = env_transition D x"
  "collect D 2 x = env_transition D (env_transition D x)"
  by (simp_all add: eval_nat_numeral)

subsection \<open>One environment step\<close>

text \<open>
  C1. A step of \<open>step_env\<close> chooses the action (here by the model's forward pass, as
  there is no explorer) and appends the transition with that action, but the
  environment is stepped without it: in the example world the model chooses the action
  \<open>[7]\<close>, executing it would pay the reward 7, and the transition the buffer receives
  carries the action \<open>[7]\<close> beside the reward 0 of a step taken with no action.
\<close>

theorem step_env_action_not_executed:
  "step_env (toy_deps False) [0] 1 (toy_agent 4) =
     ([1], \<lparr>heap = \<lparr>env_t = 1, stored = [0], files = []\<rparr>, verbose = True, buffer_size = 4,
            trace = [ModelCall [0], EnvStep None, AddTrajectory [0] [7] 0 [1] False]\<rparr>) \<and>
   fst (env_step (toy_deps False) (Some [7]) (heap (toy_agent 4))) = (7, [1], False)"
  by (simp add: step_env_def step_env_body_def choose_action_def toy_deps_def toy_agent_def
      emit_def Let_def)

subsection \<open>The schedule of fit\<close>

text \<open>
  C2. With a rollout buffer of capacity \<open>C > 0\<close> and \<open>num_steps \<ge> 0\<close>, \<open>fit\<close> returns
  normally after exactly \<open>num_steps div C\<close> calls of \<open>_fit\<close>. Before the first call
  \<open>batch_size\<close> transitions were collected, before each later call exactly \<open>C\<close>:
  the trace shows that many environment steps, each followed by the hand-over of its
  transition to the buffer, and then the call of \<open>_fit\<close>; and the store the run leaves
  is the one that this schedule of environment transitions and \<open>_fit\<close> calls makes
  of the store after the first reset.
\<close>

theorem fit_on_policy_schedule:
  assumes "is_RolloutBuffer D" and "0 < buffer_size s" and "0 \<le> num_steps"
  shows "\<exists>s'. fit D num_steps batch_size actor_epochs critic_epochs s = Inr s' \<and>
     marks (trace s') = marks (trace s) @
       concat (map (\<lambda>i. concat (replicate (if i = 0 then nat batch_size else nat (buffer_size s))
                                    [Stepped, Collected]) @ [Fitted])
                [0..<nat (num_steps div buffer_size s)]) \<and>
     heap s' =
       snd (scheduled_run D batch_size actor_epochs critic_epochs
              (map (\<lambda>i. if i = 0 then nat batch_size else nat (buffer_size s))
                 [0..<nat (num_steps div buffer_size s)])
              (env_reset D (heap s))) \<and>
     int (fit_iterations (trace s')) = int (fit_iterations (trace s)) + num_steps div buffer_size s"
proof -
  have k: "is_RolloutBuffer D \<longrightarrow> buffer_size s \<noteq> 0" using assms by simp
  have e: "\<And>i::nat. nat (if i = 0 then batch_size else if is_RolloutBuffer D then buffer_size s else 1)
         = (if i = 0 then nat batch_size else nat (buffer_size s))"
    using assms(1) by simp
  have n: "nat (if is_RolloutBuffer D then num_steps div buffer_size s else num_steps)
         = nat (num_steps div buffer_size s)"
    using assms(1) by simp
  obtain s' where f: "fit D num_steps batch_size actor_epochs critic_epochs s = Inr s'"
    and m: "marks (trace s') = marks (trace s) @
       concat (map (\<lambda>i. concat (replicate (if i = 0 then nat batch_size else nat (buffer_size s))
                                    [Stepped, Collected]) @ [Fitted])
                [0..<nat (num_steps div buffer_size s)])"
    and h: "heap s' =
       snd (scheduled_run D batch_size actor_epochs critic_epochs
              (map (\<lambda>i. if i = 0 then nat batch_size else nat (buffer_size s))
                 [0..<nat (num_steps div buffer_size s)])
              (env_reset D (heap s)))"
    using fit_run [OF k, of num_steps batch_size actor_epochs critic_epochs]
    unfolding e n by blast
  have d: "0 \<le> num_steps div buffer_size s"
    using assms by (simp add: pos_imp_zdiv_nonneg_iff)
  have c: "int (fit_iterations (trace s')) = int (fit_iterations (trace s)) + num_steps div buffer_size s"
    unfolding fit_iterations_def m using d by (simp add: count_schedule)
  show ?thesis using f m h c by blast
qed

theorem fit_on_policy_schedule_witness:
  "is_RolloutBuffer (toy_deps True) \<and> 0 < buffer_size (toy_agent 2) \<and> (0::int) \<le> 5 \<and>
   (\<exists>s'. fit (toy_deps True) 5 1 1 1 (toy_agent 2) = Inr s' \<and>
      marks (trace s') = [Stepped, Collected, Fitted, Stepped, Collected, Stepped, Collected, Fitted] \<and>
      heap s' = \<lparr>env_t = 0, stored = [0, 1, 2], files = []\<rparr> \<and>
      int (fit_iterations (trace s')) = 2)"
proof -
  have h1: "is_RolloutBuffer (toy_deps True)" by (simp add: toy_deps_def)
  have h2: "0 < buffer_size (toy_agent 2)" by (simp add: toy_agent_def)
  have h3: "(0::int) \<le> 5" by simp
  have n: "[0..<nat (5 div 2)] = [0, 1]" by (simp add: upt_conv_Cons)
  have a: "heap (toy_agent 2) = \<lparr>env_t = 0, stored = [], files = []\<rparr>" "buffer_size (toy_agent 2) = 2"
    "trace (toy_agent 2) = []" "fit_iterations [] = 0"
    by (simp_all add: toy_agent_def fit_iterations_def marks_Nil)
  show ?thesis
    using h1 h2 h3 fit_on_policy_schedule [OF h1 h2 h3, of 1 1 1]
    unfolding a n
    by (simp add: marks_Nil toy_collaborators toy_transition collect_numeral eval_nat_numeral)
qed

text \<open>
  C3, as amended. With a buffer that is not a rollout buffer \<open>fit\<close> returns normally.
  Before the first call of \<open>_fit\<close> \<open>batch_size\<close> transitions were collected (none
  when \<open>batch_size\<close> is negative), before each later call exactly one: the trace shows
  that many environment steps, each followed by the hand-over of its transition to the
  buffer, and the store the run leaves is the one this schedule makes of the store
  after the first reset. A run with \<open>num_steps \<ge> 1\<close> appends
  \<open>max(batch_size, 0) + (num_steps - 1)\<close> transitions in all, a run with
  \<open>num_steps \<le> 0\<close> none, and the environment is stepped once for each.
\<close>

theorem fit_off_policy_schedule:
  assumes "\<not> is_RolloutBuffer D"
  shows "\<exists>s'. fit D num_steps batch_size actor_epochs critic_epochs s = Inr s' \<and>
     marks (trace s') = marks (trace s) @
       concat (map (\<lambda>i. concat (replicate (if i = 0 then nat batch_size else 1) [Stepped, Collected]) @ [Fitted])
                [0..<nat num_steps]) \<and>
     heap s' =
       snd (scheduled_run D batch_size actor_epochs critic_epochs
              (map (\<lambda>i. if i = 0 then nat batch_size else 1) [0..<nat num_steps])
              (env_reset D (heap s))) \<and>
     int (transitions_appended (trace s')) =
       int (transitions_appended (trace s)) +
       (if 1 \<le> num_steps then max 0 batch_size + (num_steps - 1) else 0) \<and>
     environment_steps (trace s') - environment_steps (trace s) =
       transitions_appended (trace s') - transitions_appended (trace s)"
proof -
  have k: "is_RolloutBuffer D \<longrightarrow> buffer_size s \<noteq> 0" using assms by simp
  have e: "\<And>i::nat. nat (if i = 0 then batch_size else if is_RolloutBuffer D then buffer_size s else 1)
         = (if i = 0 then nat batch_size else 1)"
    using assms(1) by simp
  have n: "nat (if is_RolloutBuffer D then num_steps div buffer_size s else num_steps) = nat num_steps"
    using assms(1) by simp
  obtain s' where f: "fit D num_steps batch_size actor_epochs critic_epochs s = Inr s'"
    and m: "marks (trace s') = marks (trace s) @
       concat (map (\<lambda>i. concat (replicate (if i = 0 then nat batch_size else 1) [Stepped, Collected]) @ [Fitted])
                [0..<nat num_steps])"
    and h: "heap s' =
       snd (scheduled_run D batch_size actor_epochs critic_epochs
              (map (\<lambda>i. if i = 0 then nat batch_size else 1) [0..<nat num_steps])
              (env_reset D (heap s)))"
    using fit_run [OF k, of num_steps batch_size actor_epochs critic_epochs]
    unfolding e n by blast
  have t: "transitions_appended (trace s') =
             transitions_appended (trace s) + sum_list (map (\<lambda>i. if i = 0 then nat batch_size else 1) [0..<nat num_steps])"
    unfolding transitions_appended_def m by (simp add: count_schedule)
  have c: "int (transitions_appended (trace s')) =
       int (transitions_appended (trace s)) +
       (if 1 \<le> num_steps then max 0 batch_size + (num_steps - 1) else 0)"
  proof (cases "1 \<le> num_steps")
    case True
    then obtain j where j: "nat num_steps = Suc j" by (cases "nat num_steps") auto
    have "int j = num_steps - 1" using j True by linarith
    then show ?thesis
      unfolding t j sum_first_then_one using True by simp
  next
    case False
    then have "nat num_steps = 0" by simp
    then show ?thesis unfolding t using False by simp
  qed
  have v: "environment_steps (trace s') - environment_steps (trace s) =
       transitions_appended (trace s') - transitions_appended (trace s)"
    unfolding environment_steps_def transitions_appended_def m by (simp add: count_schedule)
  show ?thesis using f m h c v by blast
qed

theorem fit_off_policy_schedule_witness:
  "\<not> is_RolloutBuffer (toy_deps False) \<and>
   (\<exists>s'. fit (toy_deps False) 4 2 1 1 (toy_agent 4) = Inr s' \<and>
      marks (trace s') = [Stepped, Collected, Stepped, Collected, Fitted, Stepped, Collected, Fitted,
                          Stepped, Collected, Fitted, Stepped, Collected, Fitted] \<and>
      heap s' = \<lparr>env_t = 2, stored = [0, 1, 2, 0, 1], files = []\<rparr> \<and>
      int (transitions_appended (trace s')) = 5 \<and>
      environment_steps (trace s') = 5)"
proof -
  have h1: "\<not> is_RolloutBuffer (toy_deps False)" by (simp add: toy_deps_def)
  have n: "[0..<nat 4] = [0, 1, 2, 3]" by (simp add: upt_conv_Cons eval_nat_numeral)
  have a: "heap (toy_agent 4) = \<lparr>env_t = 0, stored = [], files = []\<rparr>"
    "trace (toy_agent 4) = []" "transitions_appended [] = 0" "environment_steps [] = 0"
    by (simp_all add: toy_agent_def transitions_appended_def environment_steps_def marks_Nil)
  show ?thesis
    using h1 fit_off_policy_schedule [OF h1, of 4 2 1 1 "toy_agent 4"]
    unfolding a n
    by (auto simp add: marks_Nil toy_collaborators toy_transition collect_numeral eval_nat_numeral)
qed

text \<open>
  The total as C3 states it fails in two ways. A run of no iteration appends nothing:
  after \<open>fit(0, 2)\<close> the buffer holds nothing, not \<open>2 + (0 - 1) = 1\<close> transition.
  With a negative \<open>batch_size\<close> the first iteration collects nothing: after
  \<open>fit(2, -1)\<close> the buffer holds one transition, not \<open>-1 + (2 - 1) = 0\<close>.
\<close>

theorem fit_off_policy_total_counterexample:
  "\<not> isl (fit (toy_deps False) 0 2 1 1 (toy_agent 4)) \<and>
   stored (heap (projr (fit (toy_deps False) 0 2 1 1 (toy_agent 4)))) = [] \<and>
   int (transitions_appended (trace (projr (fit (toy_deps False) 0 2 1 1 (toy_agent 4))))) \<noteq> 2 + (0 - 1) \<and>
   \<not> isl (fit (toy_deps False) 2 (-1) 1 1 (toy_agent 4)) \<and>
   stored (heap (projr (fit (toy_deps False) 2 (-1) 1 1 (toy_agent 4)))) = [0] \<and>
   int (transitions_appended (trace (projr (fit (toy_deps False) 2 (-1) 1 1 (toy_agent 4))))) \<noteq> -1 + (2 - 1)"
proof -
  have k: "is_RolloutBuffer (toy_deps False) \<longrightarrow> buffer_size (toy_agent 4) \<noteq> 0"
    by (simp add: toy_deps_def)
  have a: "heap (toy_agent 4) = \<lparr>env_t = 0, stored = [], files = []\<rparr>"
    "trace (toy_agent 4) = []"
    by (simp_all add: toy_agent_def)
  obtain s0 where f0: "fit (toy_deps False) 0 2 1 1 (toy_agent 4) = Inr s0"
    and m0: "marks (trace s0) = []" and h0: "heap s0 = \<lparr>env_t = 0, stored = [], files = []\<rparr>"
    using fit_run [OF k, of 0 2 1 1] unfolding a
    by (auto simp: marks_Nil toy_collaborators)
  have n: "[0..<2] = [0, 1]" by (simp add: upt_conv_Cons eval_nat_numeral)
  obtain s1 where f1: "fit (toy_deps False) 2 (-1) 1 1 (toy_agent 4) = Inr s1"
    and m1: "marks (trace s1) = [Fitted, Stepped, Collected, Fitted]"
    and h1: "heap s1 = \<lparr>env_t = 1, stored = [0], files = []\<rparr>"
    using fit_run [OF k, of 2 "-1" 1 1] unfolding a
    by (auto simp: marks_Nil toy_collaborators toy_transition n collect_numeral)
  show ?thesis
    by (simp add: f0 f1 m0 m1 h0 h1 transitions_appended_def)
qed

subsection \<open>The reward that is logged\<close>

text \<open>
  C7. In every iteration of \<open>fit\<close>, whatever log \<open>_fit\<close> returned, the reward written
  to the metrics sink under the iteration's step (and the reward of the log handed to
  the logger) is \<open>np.mean\<close> of the rewards of \<open>buffer.last(batch_size)\<close>, read from
  the buffer as \<open>_fit\<close> left it; nothing happens between that read and the writes.
\<close>

theorem fit_body_reward_overwritten:
  "let s1 = snd (if step = 0 then step_env D observation batch_size s
                 else if is_RolloutBuffer D then step_env D observation (buffer_size s) s
                 else step_env D observation 1 s);
       (lg, h2) = fit_impl D batch_size actor_epochs critic_epochs (heap s1);
       batch = buffer_last D batch_size h2;
       s' = snd (fit_body D batch_size actor_epochs critic_epochs step observation s)
   in heap s' = h2 \<and>
      trace s' =
        trace s1 @ [FitCall batch_size actor_epochs critic_epochs lg,
                    BufferLast batch_size batch,
                    AddScalar ''reward'' (Some (np_mean (rewards batch))) step,
                    AddScalar ''actor_loss'' (actor_loss lg) step,
                    AddScalar ''critic_loss'' (critic_loss lg) step]
          @ (if kl_divergence lg \<noteq> None then [AddScalar ''kl_divergence'' (kl_divergence lg) step] else [])
          @ (if entropy lg \<noteq> None then [AddScalar ''entropy'' (entropy lg) step] else [])
          @ [LoggerInfoLog step (lg\<lparr>reward := np_mean (rewards batch)\<rparr>)]"
  by (simp add: fit_body_def Let_def write_log_trace write_log_heap emit_simps
      split: prod.splits)

theorem fit_body_reward_overwritten_witness:
  "snd (fit_body (toy_deps False) 2 1 1 0 [0] (toy_agent 4)) =
     \<lparr>heap = \<lparr>env_t = 2, stored = [0, 1], files = []\<rparr>, verbose = True, buffer_size = 4,
      trace = [ModelCall [0], EnvStep None, AddTrajectory [0] [7] 0 [1] False,
               ModelCall [1], EnvStep None, AddTrajectory [1] [7] 1 [2] False,
               FitCall 2 1 1 toy_fit_log,
               BufferLast 2 \<lparr>rewards = [0, 1]\<rparr>,
               AddScalar ''reward'' (Some (Num (1 / 2))) 0,
               AddScalar ''actor_loss'' (Some (Num 0)) 0,
               AddScalar ''critic_loss'' (Some (Num 0)) 0,
               LoggerInfoLog 0 (toy_fit_log\<lparr>reward := Num (1 / 2)\<rparr>)]\<rparr>"
proof -
  have s1: "step_env (toy_deps False) [0] 2 (toy_agent 4) =
     ([2], \<lparr>heap = \<lparr>env_t = 2, stored = [0, 1], files = []\<rparr>, verbose = True, buffer_size = 4,
      trace = [ModelCall [0], EnvStep None, AddTrajectory [0] [7] 0 [1] False,
               ModelCall [1], EnvStep None, AddTrajectory [1] [7] 1 [2] False]\<rparr>)"
    by (simp add: step_env_def step_env_body_def choose_action_def toy_deps_def toy_agent_def
        emit_def Let_def eval_nat_numeral)
  have f: "fit_impl (toy_deps False) = (\<lambda>b a c h. (toy_fit_log, h))" by (simp add: toy_deps_def)
  have l: "buffer_last (toy_deps False) = (\<lambda>n h. \<lparr>rewards = drop (length (stored h) - nat n) (stored h)\<rparr>)"
    by (simp add: toy_deps_def)
  have b: "verbose (snd (fit_body (toy_deps False) 2 1 1 0 [0] (toy_agent 4))) = True
         \<and> buffer_size (snd (fit_body (toy_deps False) 2 1 1 0 [0] (toy_agent 4))) = 4"
    by (simp add: fit_body_def s1 f l Let_def write_log_def emit_def)
  have t: "kl_divergence toy_fit_log = None \<and> entropy toy_fit_log = None
     \<and> actor_loss toy_fit_log = Some (Num 0) \<and> critic_loss toy_fit_log = Some (Num 0)"
    by (simp add: toy_fit_log_def)
  show ?thesis
    using fit_body_reward_overwritten [of 0 "toy_deps False" "[0]" 2 "toy_agent 4" 1 1] b
    by (simp add: s1 f l t Let_def) 
qed

subsection \<open>Loading a checkpoint that is not there\<close>

text \<open>
  C9. When the file \<open>path + ".pt"\<close> does not exist, \<open>load\<close> returns normally: the
  \<open>FileNotFoundError\<close> is caught, the store the agent's objects live in (the model's
  weights among them) is the one before the call, and nothing but informational
  messages has been logged (two when the agent is verbose, none otherwise).
\<close>

theorem load_missing_checkpoint:
  assumes "\<not> file_exists D (path @ ''.pt'') (heap s)"
  shows "load D path s =
           Inr (s\<lparr>trace := trace s @
                  (if verbose s
                   then [LoggerInfo (''Loading weights from '' @ path @ ''.pt''),
                         LoggerInfo ''File not found, assuming no model dict was to be loaded'']
                   else [])\<rparr>)"
  using assms by (simp add: load_def load_try_body_def emit_def Let_def)

theorem load_missing_checkpoint_witness:
  "\<not> file_exists (toy_deps False) (''ckpt'' @ ''.pt'') (heap (toy_agent 4))
   \<and> load (toy_deps False) ''ckpt'' (toy_agent 4) =
       Inr ((toy_agent 4)\<lparr>trace :=
              [LoggerInfo ''Loading weights from ckpt.pt'',
               LoggerInfo ''File not found, assuming no model dict was to be loaded'']\<rparr>)"
proof -
  have h: "\<not> file_exists (toy_deps False) (''ckpt'' @ ''.pt'') (heap (toy_agent 4))"
    by (simp add: toy_deps_def toy_agent_def)
  show ?thesis
    using h load_missing_checkpoint [OF h] by (simp add: toy_agent_def)
qed

section \<open>Properties of the critic updaters\<close>

subsection \<open>Selecting the parameters\<close>

lemma foldl_extend: "foldl (\<lambda>params critic. params @ parameters critic) acc cs = acc @ concat (map parameters cs)"
  by (induction cs arbitrary: acc) simp_all

text \<open>
  C5. For a single critic \<open>_get_model_parameters\<close> returns the critic's own
  \<open>parameters()\<close> (a generator over them); for a model that exposes critics it returns
  the list of the parameters of all its critics, critic after critic, so the set
  returned is the union of the critics' parameter sets, all of each and nothing else.
\<close>

theorem get_model_parameters_union:
  "get_model_parameters (IsCritic c) = Generator (parameters c) \<and>
   get_model_parameters (IsActorCritic ac) = PyList (concat (map parameters (critics ac))) \<and>
   set (fst (iterate (get_model_parameters (IsActorCritic ac)))) = (\<Union>c \<in> set (critics ac). set (parameters c))"
  by (simp add: get_model_parameters_def foldl_extend)

theorem get_model_parameters_union_witness:
  "get_model_parameters (IsCritic toy_critic) = Generator [0, 1] \<and>
   get_model_parameters (IsActorCritic toy_ensemble) = PyList [0, 1]"
  using get_model_parameters_union [of toy_critic toy_ensemble]
  by (simp add: toy_critic_def toy_ensemble_def)

subsection \<open>One optimization step\<close>

lemma zero_grad_simps:
  "pdata (zero_grad opt t) = pdata t"
  "calls (zero_grad opt t) = calls t @ [ZeroGrad]"
  "length (pgrad (zero_grad opt t)) = length (pgrad t)"
  by (simp_all add: zero_grad_def)

lemma zero_grad_nth:
  "p < length (pgrad t) \<Longrightarrow>
   pgrad (zero_grad opt t) ! p = (if p \<in> set (param_groups opt) then 0 else pgrad t ! p)"
  by (simp add: zero_grad_def)

lemma backward_simps:
  "pdata (backward l t) = pdata t"
  "calls (backward l t) = calls t @ [Backward]"
  "length (pgrad (backward l t)) = length (pgrad t)"
  by (simp_all add: backward_def)

lemma backward_nth:
  "p < length (pgrad t) \<Longrightarrow>
   pgrad (backward l t) ! p = pgrad t ! p + (if p < length (dloss l) then dloss l ! p else 0)"
  by (simp add: backward_def)

lemma clip_grad_norm_simps:
  "pdata (clip_grad_norm ps m t) = pdata t"
  "calls (clip_grad_norm ps m t) = calls t @ [ClipGradNorm ps m]"
  by (simp_all add: clip_grad_norm_def Let_def)

lemma optimizer_step_simps:
  "calls (snd (optimizer_step opt t)) = calls t @ [OptimizerStep (opt_state opt)]"
  "pgrad (snd (optimizer_step opt t)) = pgrad t"
  "pdata (snd (optimizer_step opt t)) =
     fst (step_params (opt_rule opt) (opt_lr opt) (param_groups opt) (opt_state opt) (pdata t) (pgrad t))"
  by (simp_all add: optimizer_step_def split: prod.splits)

lemma fresh_gradient:
  assumes "p \<in> set (param_groups opt)" and "p < length (pgrad t)"
  shows "pgrad (backward l (zero_grad opt t)) ! p = (if p < length (dloss l) then dloss l ! p else 0)"
  using assms by (simp add: backward_nth zero_grad_simps zero_grad_nth)

lemma scale_grads_length: "length (scale_grads c ps g) = length g"
  by (induction ps arbitrary: g) simp_all

lemma scale_grads_other: "p \<notin> set ps \<Longrightarrow> scale_grads c ps g ! p = g ! p"
  by (induction ps arbitrary: g) auto

lemma scale_grads_nth:
  "distinct ps \<Longrightarrow> p \<in> set ps \<Longrightarrow> p < length g \<Longrightarrow> scale_grads c ps g ! p = g ! p * c"
proof (induction ps arbitrary: g)
  case Nil
  then show ?case by simp
next
  case (Cons q ps)
  show ?case
  proof (cases "p = q")
    case True
    then have "p \<notin> set ps" using Cons.prems by simp
    then show ?thesis using True Cons.prems by (simp add: scale_grads_other)
  next
    case False
    then have "p \<in> set ps" using Cons.prems by simp
    then show ?thesis using False Cons.prems Cons.IH [of "g[q := g ! q * c]"] Cons.IH [of g]
      by simp
  qed
qed

lemma total_norm_nonneg: "0 \<le> total_norm ps g"
  by (auto simp: total_norm_def intro!: sum_list_nonneg)

lemma sum_list_scaled:
  "(\<And>x. x \<in> set xs \<Longrightarrow> f x = k * h x) \<Longrightarrow> sum_list (map f xs) = (k::real) * sum_list (map h xs)"
  by (induction xs) (simp_all add: algebra_simps)

lemma total_norm_scale:
  assumes "distinct ps" and "0 \<le> c"
  shows "total_norm ps (scale_grads c ps g) = c * total_norm ps g"
proof -
  let ?vs = "filter (\<lambda>p. p < length g) ps"
  have "sum_list (map (\<lambda>p. (scale_grads c ps g ! p)\<^sup>2) ?vs) = c\<^sup>2 * sum_list (map (\<lambda>p. (g ! p)\<^sup>2) ?vs)"
    by (rule sum_list_scaled) (simp add: scale_grads_nth assms power_mult_distrib mult.commute)
  then show ?thesis
    using assms(2) by (simp add: total_norm_def scale_grads_length real_sqrt_mult)
qed

lemma clip_grad_norm_bound:
  assumes "distinct ps" and "0 < m"
  shows "total_norm ps (pgrad (clip_grad_norm ps m t)) \<le> m"
proof -
  define N where "N = total_norm ps (pgrad t)"
  define c where "c = m / (N + 1 / 1000000)"
  have N0: "0 \<le> N" by (simp add: N_def total_norm_nonneg)
  have c0: "0 \<le> c" using N0 assms(2) by (simp add: c_def)
  show ?thesis
  proof (cases "c < 1")
    case True
    have "total_norm ps (pgrad (clip_grad_norm ps m t)) = c * N"
      using True by (simp add: clip_grad_norm_def Let_def c_def N_def total_norm_scale [OF assms(1)] c0 [unfolded c_def N_def])
    also have "\<dots> = m * (N / (N + 1 / 1000000))" by (simp add: c_def)
    also have "\<dots> \<le> m * 1"
      using N0 assms(2) by (intro mult_left_mono) (simp_all add: divide_le_eq)
    finally show ?thesis by simp
  next
    case False
    then have "N + 1 / 1000000 \<le> m" using N0 by (simp add: c_def le_divide_eq)
    then have "N \<le> m" by simp
    then show ?thesis using False by (simp add: clip_grad_norm_def Let_def c_def N_def)
  qed
qed

lemma run_optimizer_length:
  fixes self :: "'a BaseCriticUpdater_scheme"
  shows "length (pgrad (snd (run_optimizer self opt l cps t))) = length (pgrad t)"
  by (simp add: run_optimizer_def Let_def optimizer_step_simps clip_grad_norm_def
      scale_grads_length backward_simps zero_grad_simps)

lemma run_optimizer_param_groups:
  fixes self :: "'a BaseCriticUpdater_scheme"
  shows "param_groups (fst (run_optimizer self opt l cps t)) = param_groups opt"
  by (simp add: run_optimizer_def Let_def optimizer_step_def split: prod.splits)

text \<open>
  C4. A call of \<open>run_optimizer\<close> calls the backend in this order: \<open>zero_grad\<close>,
  \<open>backward\<close>, \<open>clip_grad_norm_\<close> over the parameters given with \<open>max_grad\<close> exactly
  when \<open>max_grad > 0\<close>, then one \<open>step\<close> of the optimizer as it was handed in; the
  gradients the step reads are the clipped ones, or the ones \<open>backward\<close> left when
  \<open>max_grad\<close> is not positive. After \<open>backward\<close> the gradient of every parameter of
  the optimizer is the derivative of this loss alone, whatever was accumulated before,
  and it is that again when the call is repeated on the state the first call leaves.
  After a clipping over distinct parameters their gradient norm is at most \<open>max_grad\<close>.
\<close>

theorem run_optimizer_order:
  fixes self :: "'a BaseCriticUpdater_scheme"
  shows
  "calls (snd (run_optimizer self opt l cps t)) =
     calls t @ [ZeroGrad, Backward]
       @ (if max_grad self > 0 then [ClipGradNorm (fst (iterate cps)) (max_grad self)] else [])
       @ [OptimizerStep (opt_state opt)] \<and>
   pgrad (snd (run_optimizer self opt l cps t)) =
     (if max_grad self > 0
      then pgrad (clip_grad_norm (fst (iterate cps)) (max_grad self) (backward l (zero_grad opt t)))
      else pgrad (backward l (zero_grad opt t))) \<and>
   pdata (snd (run_optimizer self opt l cps t)) =
     fst (step_params (opt_rule opt) (opt_lr opt) (param_groups opt) (opt_state opt) (pdata t)
            (pgrad (snd (run_optimizer self opt l cps t)))) \<and>
   (\<forall>p. p \<in> set (param_groups opt) \<and> p < length (pgrad t) \<longrightarrow>
        pgrad (backward l (zero_grad opt t)) ! p = (if p < length (dloss l) then dloss l ! p else 0) \<and>
        pgrad (backward l (zero_grad (fst (run_optimizer self opt l cps t))
                                     (snd (run_optimizer self opt l cps t)))) ! p
          = (if p < length (dloss l) then dloss l ! p else 0)) \<and>
   (max_grad self > 0 \<and> distinct (fst (iterate cps)) \<longrightarrow>
      total_norm (fst (iterate cps)) (pgrad (snd (run_optimizer self opt l cps t))) \<le> max_grad self)"
proof -
  have a: "calls (snd (run_optimizer self opt l cps t)) =
     calls t @ [ZeroGrad, Backward]
       @ (if max_grad self > 0 then [ClipGradNorm (fst (iterate cps)) (max_grad self)] else [])
       @ [OptimizerStep (opt_state opt)]"
    by (simp add: run_optimizer_def Let_def optimizer_step_simps clip_grad_norm_simps
        backward_simps zero_grad_simps)
  have b: "pgrad (snd (run_optimizer self opt l cps t)) =
     (if max_grad self > 0
      then pgrad (clip_grad_norm (fst (iterate cps)) (max_grad self) (backward l (zero_grad opt t)))
      else pgrad (backward l (zero_grad opt t)))"
    by (simp add: run_optimizer_def Let_def optimizer_step_simps)
  have c: "pdata (snd (run_optimizer self opt l cps t)) =
     fst (step_params (opt_rule opt) (opt_lr opt) (param_groups opt) (opt_state opt) (pdata t)
            (pgrad (snd (run_optimizer self opt l cps t))))"
    by (simp add: run_optimizer_def Let_def optimizer_step_simps clip_grad_norm_simps
        backward_simps zero_grad_simps)
  have d: "\<forall>p. p \<in> set (param_groups opt) \<and> p < length (pgrad t) \<longrightarrow>
        pgrad (backward l (zero_grad opt t)) ! p = (if p < length (dloss l) then dloss l ! p else 0) \<and>
        pgrad (backward l (zero_grad (fst (run_optimizer self opt l cps t))
                                     (snd (run_optimizer self opt l cps t)))) ! p
          = (if p < length (dloss l) then dloss l ! p else 0)"
  proof (intro allI impI conjI)
    fix p assume p: "p \<in> set (param_groups opt) \<and> p < length (pgrad t)"
    show "pgrad (backward l (zero_grad opt t)) ! p = (if p < length (dloss l) then dloss l ! p else 0)"
      using p by (simp add: fresh_gradient)
    have "p \<in> set (param_groups (fst (run_optimizer self opt l cps t)))"
      using p by (simp add: run_optimizer_param_groups)
    moreover have "p < length (pgrad (snd (run_optimizer self opt l cps t)))"
      using p by (simp add: run_optimizer_length)
    ultimately show "pgrad (backward l (zero_grad (fst (run_optimizer self opt l cps t))
                                     (snd (run_optimizer self opt l cps t)))) ! p
          = (if p < length (dloss l) then dloss l ! p else 0)"
      by (rule fresh_gradient)
  qed
  have e: "max_grad self > 0 \<and> distinct (fst (iterate cps)) \<longrightarrow>
      total_norm (fst (iterate cps)) (pgrad (snd (run_optimizer self opt l cps t))) \<le> max_grad self"
    unfolding b by (simp add: clip_grad_norm_bound)
  show ?thesis using a b c d e by blast
qed

theorem run_optimizer_order_witness:
  "calls (snd (run_optimizer (toy_updater 1) toy_optimizer toy_loss (PyList [0, 1]) toy_torch)) =
     [ZeroGrad, Backward, ClipGradNorm [0, 1] 1, OptimizerStep [[], []]] \<and>
   pgrad (backward toy_loss (zero_grad toy_optimizer toy_torch)) = [3, 4] \<and>
   pgrad (backward toy_loss (zero_grad (fst (run_optimizer (toy_updater 1) toy_optimizer toy_loss (PyList [0, 1]) toy_torch))
                                     (snd (run_optimizer (toy_updater 1) toy_optimizer toy_loss (PyList [0, 1]) toy_torch)))) ! 0 = 3 \<and>
   total_norm [0, 1] (pgrad (snd (run_optimizer (toy_updater 1) toy_optimizer toy_loss (PyList [0, 1]) toy_torch))) \<le> 1 \<and>
   calls (snd (run_optimizer (toy_updater 0) toy_optimizer toy_loss (PyList [0, 1]) toy_torch)) =
     [ZeroGrad, Backward, OptimizerStep [[], []]] \<and>
   pgrad (snd (run_optimizer (toy_updater 0) toy_optimizer toy_loss (PyList [0, 1]) toy_torch)) = [3, 4]"
proof -
  note T1 = run_optimizer_order [of "toy_updater 1" toy_optimizer toy_loss "PyList [0, 1]" toy_torch]
  note T0 = run_optimizer_order [of "toy_updater 0" toy_optimizer toy_loss "PyList [0, 1]" toy_torch]
  have m: "max_grad (toy_updater 1) = 1" "max_grad (toy_updater 0) = 0"
    by (simp_all add: toy_updater_def)
  have o: "opt_state toy_optimizer = [[], []]" "param_groups toy_optimizer = [0, 1]"
    by (simp_all add: toy_optimizer_def)
  have t: "calls toy_torch = []" "length (pgrad toy_torch) = 2"
    by (simp_all add: toy_torch_def)
  have g: "pgrad (backward toy_loss (zero_grad toy_optimizer toy_torch)) = [3, 4]"
    by (simp add: backward_def zero_grad_def toy_loss_def toy_optimizer_def toy_torch_def
        upt_conv_Cons eval_nat_numeral)
  have c1: "calls (snd (run_optimizer (toy_updater 1) toy_optimizer toy_loss (PyList [0, 1]) toy_torch)) =
     [ZeroGrad, Backward, ClipGradNorm [0, 1] 1, OptimizerStep [[], []]]"
    using T1 [THEN conjunct1] by (simp add: m o t)
  have c0: "calls (snd (run_optimizer (toy_updater 0) toy_optimizer toy_loss (PyList [0, 1]) toy_torch)) =
     [ZeroGrad, Backward, OptimizerStep [[], []]]"
    using T0 [THEN conjunct1] by (simp add: m o t)
  have g0: "pgrad (snd (run_optimizer (toy_updater 0) toy_optimizer toy_loss (PyList [0, 1]) toy_torch)) = [3, 4]"
    using T0 [THEN conjunct2, THEN conjunct1] by (simp add: m g)
  have d: "pgrad (backward toy_loss (zero_grad (fst (run_optimizer (toy_updater 1) toy_optimizer toy_loss (PyList [0, 1]) toy_torch))
                                     (snd (run_optimizer (toy_updater 1) toy_optimizer toy_loss (PyList [0, 1]) toy_torch)))) ! 0 = 3"
    using T1 [THEN conjunct2, THEN conjunct2, THEN conjunct2, THEN conjunct1, THEN spec, of 0]
    by (simp add: o t toy_loss_def)
  have n: "total_norm [0, 1] (pgrad (snd (run_optimizer (toy_updater 1) toy_optimizer toy_loss (PyList [0, 1]) toy_torch))) \<le> 1"
    using T1 [THEN conjunct2, THEN conjunct2, THEN conjunct2, THEN conjunct2]
    by (simp add: m)
  show ?thesis using c1 g d n c0 g0 by blast
qed

subsection \<open>The calls of the three updaters\<close>

lemma new_optimizer_simps:
  "pdata (snd (new_optimizer r ps l t)) = pdata t"
  "pgrad (snd (new_optimizer r ps l t)) = pgrad t"
  "calls (snd (new_optimizer r ps l t)) = calls t @ [NewOptimizer ps l]"
  "opt_state (fst (new_optimizer r ps l t)) = replicate (length ps) []"
  "param_groups (fst (new_optimizer r ps l t)) = ps"
  by (simp_all add: new_optimizer_def)

lemma gather_last_in_range:
  assumes "length index = length input"
    and "\<forall>i<length input. \<forall>j\<in>set (index ! i). 0 \<le> j \<and> j < int (length (input ! i))"
  shows "gather_last input index = Inr (map (\<lambda>(row, js). map (\<lambda>j. row ! nat j) js) (zip input index))"
proof -
  have "list_all (\<lambda>(row, js). list_all (\<lambda>j. 0 \<le> j \<and> j < int (length row)) js) (zip input index)"
    using assms by (simp add: list_all_length list_all_iff)
  then show ?thesis using assms(1) by (simp add: gather_last_def)
qed

lemma scale_loss_item: "item (scale_loss c l) = c * item l"
  by (simp add: scale_loss_def)

lemma run_optimizer_calls:
  fixes self :: "'a BaseCriticUpdater_scheme"
  shows "calls (snd (run_optimizer self opt l cps t)) =
     calls t @ [ZeroGrad, Backward]
       @ (if max_grad self > 0 then [ClipGradNorm (fst (iterate cps)) (max_grad self)] else [])
       @ [OptimizerStep (opt_state opt)]"
  by (simp add: run_optimizer_def Let_def optimizer_step_simps clip_grad_norm_simps
      backward_simps zero_grad_simps)

lemma call_calls:
  fixes self :: "'a BaseCriticUpdater_scheme"
  assumes "iterate (get_model_parameters m) = (ps, cps')"
    and "new_optimizer (optimizer_class self) ps (lr self) t = (opt, t1)"
  shows "calls (snd (run_optimizer self opt l cps' t1)) =
     calls t @ [NewOptimizer ps (lr self), ZeroGrad, Backward]
       @ (if max_grad self > 0 then [ClipGradNorm (fst (iterate cps')) (max_grad self)] else [])
       @ [OptimizerStep (replicate (length ps) [])]"
proof -
  have "calls t1 = calls t @ [NewOptimizer ps (lr self)]" "opt_state opt = replicate (length ps) []"
    using new_optimizer_simps(3,4) [of "optimizer_class self" ps "lr self" t] assms(2) by simp_all
  then show ?thesis by (simp add: run_optimizer_calls)
qed

lemma toy_forward:
  "forward toy_critic (pdata toy_torch) [[[1], [2]]] =
     [[(1, [1, 0]), (2, [0, 1])], [(2, [2, 0]), (4, [0, 2])]]"
  by (simp add: toy_critic_def toy_torch_def)

lemma long_numeral: "long 0 = 0" "long 1 = 1"
  by (simp_all add: long_def)

lemma toy_gather:
  "gather_last (forward toy_critic (pdata toy_torch) [[[1], [2]]]) (map (map long) [[1], [0]])
     = Inr [[(2, [0, 1])], [(2, [2, 0])]]"
  by (simp add: toy_forward long_numeral gather_last_def)

lemma DiscreteQRegression_call_returns:
  assumes "gather_last (case m of IsCritic c \<Rightarrow> forward c (pdata t) [observations]
                        | IsActorCritic ac \<Rightarrow> forward_critics ac (pdata t) [observations])
             (map (map long) actions_index) = Inr g"
  shows "\<exists>r. DiscreteQRegression_call self m observations returns actions_index t = Inr r"
proof -
  have pd: "pdata (snd (new_optimizer (optimizer_class self) (fst (iterate (get_model_parameters m))) (lr self) t)) = pdata t"
    by (simp add: new_optimizer_simps)
  show ?thesis
    unfolding DiscreteQRegression_call_def Let_def case_prod_beta pd assms
    by simp
qed

text \<open>
  C6. In \<open>DiscreteQRegression.__call__\<close> the index handed to the gather is
  \<open>actions_index\<close> cast by \<open>.long()\<close>, and the gather runs along the last dimension
  of the model's output \<open>q\<close>. When the index has one row for every row of \<open>q\<close> and
  every cast entry lies in \<open>[0, num_actions)\<close>, the gather succeeds, its result has
  the shape of the index, entry \<open>(i, j)\<close> of it is \<open>q[i][index[i][j]]\<close>, and the
  call returns the loss \<open>loss_coeff * loss_class(gathered, returns)\<close>.
\<close>

theorem DiscreteQRegression_gather:
  assumes "q = (case m of IsCritic c \<Rightarrow> forward c (pdata t) [observations]
                        | IsActorCritic ac \<Rightarrow> forward_critics ac (pdata t) [observations])"
    and "length actions_index = length q"
    and "\<forall>i<length q. \<forall>x\<in>set (actions_index ! i). 0 \<le> long x \<and> long x < int (length (q ! i))"
  shows "\<exists>gathered r.
     gather_last q (map (map long) actions_index) = Inr gathered \<and>
     length gathered = length q \<and>
     (\<forall>i<length q. length (gathered ! i) = length (actions_index ! i) \<and>
        (\<forall>j<length (actions_index ! i). gathered ! i ! j = q ! i ! nat (long (actions_index ! i ! j)))) \<and>
     DiscreteQRegression_call self m observations returns actions_index t = Inr r \<and>
     loss (fst r) = loss_coeff self * item (loss_class self gathered returns)"
proof -
  define idx where "idx = map (map long) actions_index"
  define gathered where "gathered = map (\<lambda>(row, js). map (\<lambda>j. row ! nat j) js) (zip q idx)"
  have l: "length idx = length q" using assms(2) by (simp add: idx_def)
  have r: "\<forall>i<length q. \<forall>j\<in>set (idx ! i). 0 \<le> j \<and> j < int (length (q ! i))"
    using assms(2,3) by (auto simp: idx_def)
  have g: "gather_last q idx = Inr gathered"
    unfolding gathered_def by (rule gather_last_in_range [OF l r])
  have n: "length gathered = length q" using l by (simp add: gathered_def)
  have e: "\<forall>i<length q. length (gathered ! i) = length (actions_index ! i) \<and>
        (\<forall>j<length (actions_index ! i). gathered ! i ! j = q ! i ! nat (long (actions_index ! i ! j)))"
    using l assms(2) by (simp add: gathered_def idx_def)
  obtain ps cps' where it: "iterate (get_model_parameters m) = (ps, cps')"
    by (cases "iterate (get_model_parameters m)")
  obtain opt t1 where no: "new_optimizer (optimizer_class self) ps (lr self) t = (opt, t1)"
    by (cases "new_optimizer (optimizer_class self) ps (lr self) t")
  have pd: "pdata t1 = pdata t" using new_optimizer_simps(1) [of "optimizer_class self" ps "lr self" t] no by simp
  have q': "(case m of IsCritic c \<Rightarrow> forward c (pdata t1) [observations]
                     | IsActorCritic ac \<Rightarrow> forward_critics ac (pdata t1) [observations]) = q"
    unfolding assms(1) pd by simp
  obtain opt' t2 where ro: "run_optimizer self opt
      (scale_loss (loss_coeff self) (loss_class self gathered returns)) cps' t1 = (opt', t2)"
    by (cases "run_optimizer self opt (scale_loss (loss_coeff self) (loss_class self gathered returns)) cps' t1")
  have c: "DiscreteQRegression_call self m observations returns actions_index t =
             Inr (\<lparr>loss = item (scale_loss (loss_coeff self) (loss_class self gathered returns))\<rparr>, self, t2)"
    using g by (simp add: DiscreteQRegression_call_def it no q' Let_def ro idx_def)
  show ?thesis
    using g n e c by (simp add: idx_def scale_loss_item)
qed

theorem DiscreteQRegression_gather_witness:
  "gather_last (forward toy_critic (pdata toy_torch) [[[1], [2]]]) (map (map long) [[1], [0]])
     = Inr [[(2, [0, 1])], [(2, [2, 0])]] \<and>
   (\<exists>r. DiscreteQRegression_call (toy_updater 0) (IsCritic toy_critic) [[1], [2]] [[0], [0]] [[1], [0]] toy_torch = Inr r \<and>
        loss (fst r) = 4)"
proof -
  let ?q = "forward toy_critic (pdata toy_torch) [[[1], [2]]]"
  have h1: "?q = (case IsCritic toy_critic of IsCritic c \<Rightarrow> forward c (pdata toy_torch) [[[1], [2]]]
                   | IsActorCritic ac \<Rightarrow> forward_critics ac (pdata toy_torch) [[[1], [2]]])"
    by simp
  have h2: "length [[1], [0::real]] = length ?q" by (simp add: toy_forward)
  have h3: "\<forall>i<length ?q. \<forall>x\<in>set ([[1], [0]] ! i). 0 \<le> long x \<and> long x < int (length (?q ! i))"
    by (simp add: toy_forward long_numeral less_Suc_eq eval_nat_numeral)
  have m: "item (mse_loss [[(2, [0, 1])], [(2, [2, 0])]] [[0], [0]]) = 4"
    by (simp add: mse_loss_def)
  have k: "loss_coeff (toy_updater 0) = 1" by (simp add: toy_updater_def)
  obtain gathered r where
    g: "gather_last ?q (map (map long) [[1], [0]]) = Inr gathered" and
    c: "DiscreteQRegression_call (toy_updater 0) (IsCritic toy_critic) [[1], [2]] [[0], [0]] [[1], [0]] toy_torch = Inr r" and
    l: "loss (fst r) = loss_coeff (toy_updater 0) * item (loss_class (toy_updater 0) gathered [[0], [0]])"
    using DiscreteQRegression_gather [OF h1 h2 h3, of "toy_updater 0" "[[0], [0]]"] by blast
  have "gathered = [[(2, [0, 1])], [(2, [2, 0])]]" using g toy_gather by simp
  then have "loss (fst r) = 4" using l m k by (simp add: toy_updater_def)
  then show ?thesis using toy_gather c by blast
qed

text \<open>
  C10. A call of any of the three updaters returns the updater as it was (no field
  changed, and it has no field for an optimizer), and the backend calls it makes are:
  a new optimizer over the model's parameters with the updater's learning rate, then
  the calls of \<open>run_optimizer\<close>, whose step is taken by that new optimizer with no
  state for any parameter. This holds from every backend state, so also for a call that
  follows another one. (For a single critic the parameters reach \<open>clip_grad_norm_\<close>
  as an exhausted generator: the clipping, when \<open>max_grad > 0\<close>, ranges over none.)
\<close>

theorem critic_updater_call_fresh_optimizer:
  "let ps = fst (iterate (get_model_parameters m));
       rest = fst (iterate (snd (iterate (get_model_parameters m))));
       expected = calls t @ [NewOptimizer ps (lr self), ZeroGrad, Backward]
                    @ (if max_grad self > 0 then [ClipGradNorm rest (max_grad self)] else [])
                    @ [OptimizerStep (replicate (length ps) [])]
   in (fst (snd (ValueRegression_call self m observations returns t)) = self \<and>
       calls (snd (snd (ValueRegression_call self m observations returns t))) = expected) \<and>
      (fst (snd (ContinuousQRegression_call self m observations actions returns t)) = self \<and>
       calls (snd (snd (ContinuousQRegression_call self m observations actions returns t))) = expected) \<and>
      (\<forall>r. DiscreteQRegression_call self m observations returns actions_index t = Inr r \<longrightarrow>
           fst (snd r) = self \<and> calls (snd (snd r)) = expected)"
proof -
  obtain ps cps' where it: "iterate (get_model_parameters m) = (ps, cps')"
    by (cases "iterate (get_model_parameters m)")
  obtain opt t1 where no: "new_optimizer (optimizer_class self) ps (lr self) t = (opt, t1)"
    by (cases "new_optimizer (optimizer_class self) ps (lr self) t")
  note cc = call_calls [OF it no]
  have v: "fst (snd (ValueRegression_call self m observations returns t)) = self \<and>
       calls (snd (snd (ValueRegression_call self m observations returns t))) =
         calls t @ [NewOptimizer ps (lr self), ZeroGrad, Backward]
           @ (if max_grad self > 0 then [ClipGradNorm (fst (iterate cps')) (max_grad self)] else [])
           @ [OptimizerStep (replicate (length ps) [])]"
    by (simp add: ValueRegression_call_def it no Let_def case_prod_beta cc)
  have c: "fst (snd (ContinuousQRegression_call self m observations actions returns t)) = self \<and>
       calls (snd (snd (ContinuousQRegression_call self m observations actions returns t))) =
         calls t @ [NewOptimizer ps (lr self), ZeroGrad, Backward]
           @ (if max_grad self > 0 then [ClipGradNorm (fst (iterate cps')) (max_grad self)] else [])
           @ [OptimizerStep (replicate (length ps) [])]"
    by (simp add: ContinuousQRegression_call_def it no Let_def case_prod_beta cc)
  have d: "\<forall>r. DiscreteQRegression_call self m observations returns actions_index t = Inr r \<longrightarrow>
           fst (snd r) = self \<and> calls (snd (snd r)) =
         calls t @ [NewOptimizer ps (lr self), ZeroGrad, Backward]
           @ (if max_grad self > 0 then [ClipGradNorm (fst (iterate cps')) (max_grad self)] else [])
           @ [OptimizerStep (replicate (length ps) [])]"
    by (auto simp add: DiscreteQRegression_call_def it no Let_def case_prod_beta cc
        split: sum.splits)
  show ?thesis
    using v c d by (simp add: it Let_def)
qed

theorem critic_updater_call_fresh_optimizer_witness:
  "fst (snd (ValueRegression_call (toy_updater 1) (IsCritic toy_critic) [[1], [2]] [[0], [0]] toy_torch))
     = toy_updater 1 \<and>
   calls (snd (snd (ValueRegression_call (toy_updater 1) (IsCritic toy_critic) [[1], [2]] [[0], [0]] toy_torch)))
     = [NewOptimizer [0, 1] (1 / 10), ZeroGrad, Backward, ClipGradNorm [] 1, OptimizerStep [[], []]] \<and>
   (\<exists>r. DiscreteQRegression_call (toy_updater 1) (IsCritic toy_critic) [[1], [2]] [[0], [0]] [[1], [0]] toy_torch = Inr r \<and>
        fst (snd r) = toy_updater 1 \<and>
        calls (snd (snd r))
          = [NewOptimizer [0, 1] (1 / 10), ZeroGrad, Backward, ClipGradNorm [] 1, OptimizerStep [[], []]])"
proof -
  note T = critic_updater_call_fresh_optimizer
             [where m = "IsCritic toy_critic" and t = toy_torch and self = "toy_updater 1"
                and observations = "[[1], [2]]" and returns = "[[0], [0]]" and actions = "[]"
                and actions_index = "[[1], [0]]"]
  have p: "iterate (get_model_parameters (IsCritic toy_critic)) = ([0, 1], Generator [])"
    by (simp add: get_model_parameters_def toy_critic_def)
  have u: "lr (toy_updater 1) = 1 / 10" "max_grad (toy_updater 1) = 1"
    by (simp_all add: toy_updater_def)
  have t: "calls toy_torch = []" by (simp add: toy_torch_def)
  obtain r where r: "DiscreteQRegression_call (toy_updater 1) (IsCritic toy_critic) [[1], [2]] [[0], [0]] [[1], [0]] toy_torch = Inr r"
    using DiscreteQRegression_call_returns
            [where m = "IsCritic toy_critic" and t = toy_torch and observations = "[[1], [2]]"
               and actions_index = "[[1], [0]]" and self = "toy_updater 1" and returns = "[[0], [0]]"]
          toy_gather
    by auto
  show ?thesis
    using T r by (simp add: p u t Let_def eval_nat_numeral)
qed

subsection \<open>Construction\<close>

text \<open>
  C8, as amended. The constructors validate nothing: for every learning rate and every
  \<open>max_grad\<close>, a learning rate that is not positive and a negative \<open>max_grad\<close>
  among them, construction returns an updater holding the values as given; with a
  \<open>max_grad\<close> that is not positive \<open>run_optimizer\<close> makes no clipping call and
  leaves the gradients as \<open>backward\<close> computed them.
\<close>

theorem critic_updater_init_no_validation:
  "ValueRegression_init lc oc l k mg =
     Inr \<lparr>optimizer_class = oc, lr = l, max_grad = mg, loss_class = lc, loss_coeff = k\<rparr> \<and>
   ContinuousQRegression_init lc oc l k mg =
     Inr \<lparr>optimizer_class = oc, lr = l, max_grad = mg, loss_class = lc, loss_coeff = k\<rparr> \<and>
   DiscreteQRegression_init lc oc l k mg =
     Inr \<lparr>optimizer_class = oc, lr = l, max_grad = mg, loss_class = lc, loss_coeff = k\<rparr> \<and>
   (\<not> mg > 0 \<longrightarrow>
      calls (snd (run_optimizer \<lparr>optimizer_class = oc, lr = l, max_grad = mg, loss_class = lc, loss_coeff = k\<rparr>
                    opt ls cps t))
        = calls t @ [ZeroGrad, Backward, OptimizerStep (opt_state opt)] \<and>
      pgrad (snd (run_optimizer \<lparr>optimizer_class = oc, lr = l, max_grad = mg, loss_class = lc, loss_coeff = k\<rparr>
                    opt ls cps t))
        = pgrad (backward ls (zero_grad opt t)))"
  by (simp add: ValueRegression_init_def ContinuousQRegression_init_def DiscreteQRegression_init_def
      BaseCriticUpdater_init_def run_optimizer_def Let_def optimizer_step_simps
      backward_simps zero_grad_simps)

theorem critic_updater_init_no_validation_witness:
  "\<not> (-1::real) > 0 \<and>
   DiscreteQRegression_init mse_loss sgd_momentum 0 1 (-1) =
     Inr \<lparr>optimizer_class = sgd_momentum, lr = 0, max_grad = -1, loss_class = mse_loss, loss_coeff = 1\<rparr> \<and>
   calls (snd (run_optimizer \<lparr>optimizer_class = sgd_momentum, lr = 0, max_grad = -1, loss_class = mse_loss, loss_coeff = 1\<rparr>
                 toy_optimizer toy_loss (PyList [0, 1]) toy_torch))
     = [ZeroGrad, Backward, OptimizerStep [[], []]]"
proof -
  have h: "\<not> (-1::real) > 0" by simp
  show ?thesis
    using h critic_updater_init_no_validation [where lc = mse_loss and oc = sgd_momentum and l = 0 and k = 1 and mg = "-1"
         and opt = toy_optimizer and ls = toy_loss and cps = "PyList [0, 1]" and t = toy_torch]
    by (simp add: toy_optimizer_def toy_torch_def)
qed

text \<open>
  C8 as stated fails: construction with the learning rate \<open>-1\<close> and \<open>max_grad = -1\<close>
  returns an updater, not an error.
\<close>

theorem critic_updater_init_counterexample:
  "ValueRegression_init mse_loss sgd_momentum (-1) 1 (-1) =
     Inr \<lparr>optimizer_class = sgd_momentum, lr = -1, max_grad = -1, loss_class = mse_loss, loss_coeff = 1\<rparr>"
  by (simp add: ValueRegression_init_def BaseCriticUpdater_init_def)

end
